theory Spec2Isabelle
  imports Complex_Main
begin

section \<open>Rigid transforms\<close>

text \<open>
  The stage computes with \<^verbatim>\<open>Eigen::Isometry3d\<close> and \<^verbatim>\<open>Eigen::Vector3d\<close>.
  A transform is its 3x3 linear part (rows first) and its translation. The scalars are
  C++ doubles; they are modelled as real numbers, so rounding is outside this development.
\<close>

type_synonym Vector3d = "real \<times> real \<times> real"

type_synonym Matrix3d = "Vector3d \<times> Vector3d \<times> Vector3d"

record Isometry3d =
  rotation :: Matrix3d
  translation :: Vector3d

fun vadd :: "Vector3d \<Rightarrow> Vector3d \<Rightarrow> Vector3d" where
  "vadd (a, b, c) (d, e, f) = (a + d, b + e, c + f)"

fun vneg :: "Vector3d \<Rightarrow> Vector3d" where
  "vneg (a, b, c) = (- a, - b, - c)"

fun dot :: "Vector3d \<Rightarrow> Vector3d \<Rightarrow> real" where
  "dot (a, b, c) (d, e, f) = a * d + b * e + c * f"

fun mat_vec :: "Matrix3d \<Rightarrow> Vector3d \<Rightarrow> Vector3d" where
  "mat_vec (r1, r2, r3) v = (dot r1 v, dot r2 v, dot r3 v)"

fun transpose3 :: "Matrix3d \<Rightarrow> Matrix3d" where
  "transpose3 ((a, b, c), (d, e, f), (g, h, i)) = ((a, d, g), (b, e, h), (c, f, i))"

definition mat_mul :: "Matrix3d \<Rightarrow> Matrix3d \<Rightarrow> Matrix3d" where
  "mat_mul m n =
     (case transpose3 n of (c1, c2, c3) \<Rightarrow> transpose3 (mat_vec m c1, mat_vec m c2, mat_vec m c3))"

definition Identity :: Isometry3d where
  "Identity = \<lparr>rotation = ((1, 0, 0), (0, 1, 0), (0, 0, 1)), translation = (0, 0, 0)\<rparr>"

text \<open>\<^verbatim>\<open>a * b\<close> on two transforms: apply \<open>b\<close>, then \<open>a\<close>.\<close>

definition iso_mul :: "Isometry3d \<Rightarrow> Isometry3d \<Rightarrow> Isometry3d" where
  "iso_mul a b =
     \<lparr>rotation = mat_mul (rotation a) (rotation b),
      translation = vadd (mat_vec (rotation a) (translation b)) (translation a)\<rparr>"

text \<open>\<^verbatim>\<open>a * p\<close> on a transform and a point.\<close>

definition iso_apply :: "Isometry3d \<Rightarrow> Vector3d \<Rightarrow> Vector3d" where
  "iso_apply a p = vadd (mat_vec (rotation a) p) (translation a)"

text \<open>
  \<^verbatim>\<open>Isometry3d::inverse()\<close>: for the isometry mode Eigen transposes the linear part
  and maps the translation through it.
\<close>

definition iso_inverse :: "Isometry3d \<Rightarrow> Isometry3d" where
  "iso_inverse a =
     \<lparr>rotation = transpose3 (rotation a),
      translation = vneg (mat_vec (transpose3 (rotation a)) (translation a))\<rparr>"

section \<open>Messages\<close>

datatype Point = Point (point_x: real) (point_y: real) (point_z: real)

datatype Quaternion = Quaternion (quat_x: real) (quat_y: real) (quat_z: real) (quat_w: real)

record Pose =
  position :: Point
  orientation :: Quaternion

record Header =
  frame_id :: string

record PoseStamped =
  header :: Header
  pose :: Pose

record PointStamped =
  point_header :: Header
  point :: Point

record JointState =
  js_name :: "string list"
  js_position :: "real list"

text \<open>
  \<^verbatim>\<open>moveit_msgs::RobotState\<close>: of the multi-dof joint state only the joint names are
  read by the stage.
\<close>

record RobotStateMsg =
  joint_state :: JointState
  multi_dof_joint_names :: "string list"
  is_diff :: bool

text \<open>A default-constructed \<^verbatim>\<open>geometry_msgs::PoseStamped\<close>: empty frame, all numbers zero.\<close>

definition default_PoseStamped :: PoseStamped where
  "default_PoseStamped =
     \<lparr>header = \<lparr>frame_id = []\<rparr>,
      pose = \<lparr>position = Point 0 0 0, orientation = Quaternion 0 0 0 0\<rparr>\<rparr>"

text \<open>
  \<^verbatim>\<open>tf2::fromMsg\<close> on a point and on a pose. The pose becomes
  \<^verbatim>\<open>Translation3d(position) * Quaterniond(w, x, y, z)\<close>; the matrix of the quaternion is
  Eigen's \<^verbatim>\<open>toRotationMatrix\<close>, which does not normalise.
\<close>

definition fromMsg_point :: "Point \<Rightarrow> Vector3d" where
  "fromMsg_point m = (point_x m, point_y m, point_z m)"

definition toRotationMatrix :: "Quaternion \<Rightarrow> Matrix3d" where
  "toRotationMatrix q =
     (let x = quat_x q; y = quat_y q; z = quat_z q; w = quat_w q;
          tx = 2 * x; ty = 2 * y; tz = 2 * z;
          twx = tx * w; twy = ty * w; twz = tz * w;
          txx = tx * x; txy = ty * x; txz = tz * x;
          tyy = ty * y; tyz = tz * y; tzz = tz * z
      in ((1 - (tyy + tzz), txy - twz, txz + twy),
          (txy + twz, 1 - (txx + tzz), tyz - twx),
          (txz - twy, tyz + twx, 1 - (txx + tyy))))"

definition fromMsg_pose :: "Pose \<Rightarrow> Isometry3d" where
  "fromMsg_pose m =
     \<lparr>rotation = toRotationMatrix (orientation m), translation = fromMsg_point (position m)\<rparr>"

section \<open>Robot model, robot state and planning scene\<close>

text \<open>A robot state is the position of every variable, by name.\<close>

type_synonym RobotState = "string \<Rightarrow> real"

definition setVariablePosition :: "string \<Rightarrow> real \<Rightarrow> RobotState \<Rightarrow> RobotState" where
  "setVariablePosition n v s = s(n := v)"

fun setVariablePositions :: "(string \<times> real) list \<Rightarrow> RobotState \<Rightarrow> RobotState" where
  "setVariablePositions [] s = s"
| "setVariablePositions ((n, v) # m) s = setVariablePositions m (setVariablePosition n v s)"

text \<open>
  A joint model group: its name, the names of its joints, the tip frames of its end
  effectors, and its named default configurations.
\<close>

record JointModelGroup =
  jmg_name :: string
  joint_model_names :: "string list"
  end_effector_tips :: "string list"
  default_states :: "(string \<times> (string \<times> real) list) list"

record RobotModel =
  joint_model_groups :: "JointModelGroup list"

text \<open>\<^verbatim>\<open>RobotModel::getJointModelGroup\<close>: a null pointer when no group has the name.\<close>

definition getJointModelGroup :: "RobotModel \<Rightarrow> string \<Rightarrow> JointModelGroup option" where
  "getJointModelGroup m g = find (\<lambda>j. jmg_name j = g) (joint_model_groups m)"

text \<open>
  \<^verbatim>\<open>RobotState::setToDefaultValues(jmg, name)\<close>: false, and nothing written, when the
  group has no default configuration of that name.
\<close>

definition setToDefaultValues :: "JointModelGroup \<Rightarrow> string \<Rightarrow> RobotState \<Rightarrow> RobotState option" where
  "setToDefaultValues jmg n s =
     (case map_of (default_states jmg) n of
        None \<Rightarrow> None
      | Some m \<Rightarrow> Some (setVariablePositions m s))"

text \<open>
  \<^verbatim>\<open>robotStateMsgToRobotState(msg, state, false)\<close>: writes the single-dof joint positions
  of the message; a message whose name and position arrays differ in length is rejected
  and nothing is written. The stage ignores the returned flag.
\<close>

definition robotStateMsgToRobotState :: "RobotStateMsg \<Rightarrow> RobotState \<Rightarrow> RobotState" where
  "robotStateMsgToRobotState msg s =
     (if length (js_name (joint_state msg)) \<noteq> length (js_position (joint_state msg)) then s
      else setVariablePositions (zip (js_name (joint_state msg)) (js_position (joint_state msg))) s)"

text \<open>
  What the stage reads of a planning scene. The frame transforms are those of the scene's
  current state at the time the Cartesian branch reads them; the joint-space branch, the
  only one that changes the state before planning, reads none.
\<close>

record PlanningScene =
  robot_model :: RobotModel
  current_state :: RobotState
  frame_transform :: "string \<Rightarrow> Isometry3d"
  knows_frame_transform :: "string \<Rightarrow> bool"
  planning_frame :: string

section \<open>Goal values\<close>

text \<open>
  The goal property is a \<^verbatim>\<open>boost::any\<close>: empty, or a value of one type. The stage
  registers four types and probes for a fifth (the joint map); any other content is kept
  with the name of its type.
\<close>

datatype boost_any =
    Empty
  | AnyString string
  | AnyRobotState RobotStateMsg
  | AnyJointMap "(string \<times> real) list"
  | AnyPoseStamped PoseStamped
  | AnyPointStamped PointStamped
  | AnyOther string

text \<open>
  \<^verbatim>\<open>boost::any_cast<T>\<close>: \<open>None\<close> stands for \<^verbatim>\<open>bad_any_cast\<close>. A
  \<^verbatim>\<open>std::map<std::string, double>\<close> is the list of its entries in iteration order.
\<close>

fun any_cast_string :: "boost_any \<Rightarrow> string option" where
  "any_cast_string (AnyString s) = Some s"
| "any_cast_string _ = None"

fun any_cast_RobotState :: "boost_any \<Rightarrow> RobotStateMsg option" where
  "any_cast_RobotState (AnyRobotState m) = Some m"
| "any_cast_RobotState _ = None"

fun any_cast_joint_map :: "boost_any \<Rightarrow> (string \<times> real) list option" where
  "any_cast_joint_map (AnyJointMap m) = Some m"
| "any_cast_joint_map _ = None"

fun any_cast_PoseStamped :: "boost_any \<Rightarrow> PoseStamped option" where
  "any_cast_PoseStamped (AnyPoseStamped m) = Some m"
| "any_cast_PoseStamped _ = None"

fun any_cast_PointStamped :: "boost_any \<Rightarrow> PointStamped option" where
  "any_cast_PointStamped (AnyPointStamped m) = Some m"
| "any_cast_PointStamped _ = None"

text \<open>\<^verbatim>\<open>goal.type().name()\<close>; the names are implementation-defined.\<close>

fun type_name :: "boost_any \<Rightarrow> string" where
  "type_name Empty = ''void''"
| "type_name (AnyString _) = ''std::string''"
| "type_name (AnyRobotState _) = ''moveit_msgs::RobotState''"
| "type_name (AnyJointMap _) = ''std::map<std::string, double>''"
| "type_name (AnyPoseStamped _) = ''geometry_msgs::PoseStamped''"
| "type_name (AnyPointStamped _) = ''geometry_msgs::PointStamped''"
| "type_name (AnyOther n) = n"

section \<open>Joint-space goals: \<^verbatim>\<open>MoveTo::getJointStateGoal\<close>\<close>

datatype exception = InitStageException string

definition quote :: string where
  "quote = [CHR 0x27]"

definition not_part_of_group :: "string \<Rightarrow> string \<Rightarrow> exception" where
  "not_part_of_group n g =
     InitStageException (''Joint '' @ quote @ n @ quote @ '' is not part of group '' @ quote @ g @ quote)"

text \<open>The validation loops of the RobotState branch: the first name outside the group throws.\<close>

fun validate_joints :: "string list \<Rightarrow> string \<Rightarrow> string list \<Rightarrow> exception option" where
  "validate_joints accepted g [] = None"
| "validate_joints accepted g (n # ns) =
     (if n \<notin> set accepted then Some (not_part_of_group n g) else validate_joints accepted g ns)"

text \<open>
  The loop of the joint-map branch: each entry is checked and then written, so the entries
  before an offending one have been written when the exception leaves the loop.
\<close>

fun set_joint_map :: "string list \<Rightarrow> string \<Rightarrow> (string \<times> real) list \<Rightarrow> RobotState \<Rightarrow> RobotState \<times> exception option" where
  "set_joint_map accepted g [] s = (s, None)"
| "set_joint_map accepted g ((n, v) # m) s =
     (if n \<notin> set accepted then (s, Some (not_part_of_group n g))
      else set_joint_map accepted g m (setVariablePosition n v s))"

text \<open>
  The state is changed in place, so it is returned on every path; \<open>Inl\<close> is the exception
  that leaves the function, \<open>Inr\<close> the returned flag.
\<close>

definition getJointStateGoal :: "boost_any \<Rightarrow> JointModelGroup \<Rightarrow> RobotState \<Rightarrow> RobotState \<times> (exception + bool)" where
  "getJointStateGoal goal jmg state =
     (case any_cast_string goal of
        Some named_joint_pose \<Rightarrow>
          (case setToDefaultValues jmg named_joint_pose state of
             None \<Rightarrow> (state, Inl (InitStageException (''Unknown joint pose: '' @ named_joint_pose)))
           | Some state' \<Rightarrow> (state', Inr True))
      | None \<Rightarrow>
     (case any_cast_RobotState goal of
        Some msg \<Rightarrow>
          if \<not> is_diff msg then (state, Inl (InitStageException ''Expecting a diff state''))
          else
            (case validate_joints (joint_model_names jmg) (jmg_name jmg) (js_name (joint_state msg)) of
               Some e \<Rightarrow> (state, Inl e)
             | None \<Rightarrow>
            (case validate_joints (joint_model_names jmg) (jmg_name jmg) (multi_dof_joint_names msg) of
               Some e \<Rightarrow> (state, Inl e)
             | None \<Rightarrow> (robotStateMsgToRobotState msg state, Inr True)))
      | None \<Rightarrow>
     (case any_cast_joint_map goal of
        Some joint_map \<Rightarrow>
          (case set_joint_map (joint_model_names jmg) (jmg_name jmg) joint_map state of
             (state', Some e) \<Rightarrow> (state', Inl e)
           | (state', None) \<Rightarrow> (state', Inr True))
      | None \<Rightarrow> (state, Inr False))))"

section \<open>Cartesian goals: \<^verbatim>\<open>MoveTo::getPoseGoal\<close> and \<^verbatim>\<open>MoveTo::getPointGoal\<close>\<close>

text \<open>
  Both return a flag and write the target through a reference only when the flag is true:
  \<open>Some\<close> is the written target, \<open>None\<close> the false flag.
\<close>

definition getPoseGoal :: "boost_any \<Rightarrow> PlanningScene \<Rightarrow> Isometry3d option" where
  "getPoseGoal goal scene =
     (case any_cast_PoseStamped goal of
        Some msg \<Rightarrow>
          Some (iso_mul (frame_transform scene (frame_id (header msg))) (fromMsg_pose (pose msg)))
      | None \<Rightarrow> None)"

definition getPointGoal :: "boost_any \<Rightarrow> Isometry3d \<Rightarrow> PlanningScene \<Rightarrow> Isometry3d option" where
  "getPointGoal goal ik_pose scene =
     (case any_cast_PointStamped goal of
        Some target \<Rightarrow>
          (let target_point =
                 iso_apply (frame_transform scene (frame_id (point_header target)))
                   (fromMsg_point (point target))
           in Some (ik_pose\<lparr>translation := target_point\<rparr>))
      | None \<Rightarrow> None)"

section \<open>Trajectories and solutions\<close>

text \<open>
  \<^verbatim>\<open>robot_trajectory::RobotTrajectory\<close>: the waypoints and, for each, the duration from
  the previous one. \<^verbatim>\<open>reverse\<close> reverses the waypoints; the durations between
  consecutive waypoints follow them, and the duration before the first waypoint stays
  in front.
\<close>

record RobotTrajectory =
  waypoints :: "RobotState list"
  duration_from_previous :: "real list"

definition empty_trajectory :: RobotTrajectory where
  "empty_trajectory = \<lparr>waypoints = [], duration_from_previous = []\<rparr>"

definition addSuffixWayPoint :: "RobotState \<Rightarrow> real \<Rightarrow> RobotTrajectory \<Rightarrow> RobotTrajectory" where
  "addSuffixWayPoint s dt t =
     t\<lparr>waypoints := waypoints t @ [s], duration_from_previous := duration_from_previous t @ [dt]\<rparr>"

definition reverse :: "RobotTrajectory \<Rightarrow> RobotTrajectory" where
  "reverse t =
     \<lparr>waypoints = rev (waypoints t),
      duration_from_previous =
        (case duration_from_previous t of
           [] \<Rightarrow> []
         | d # ds \<Rightarrow> butlast (rev ((d # ds) @ [d])))\<rparr>"

text \<open>
  \<^verbatim>\<open>SubTrajectory\<close>, the solution record the stage fills in. A failure is a solution of
  infinite cost; \<open>failure\<close> is that fact.
\<close>

record SubTrajectory =
  trajectory :: "RobotTrajectory option"
  failure :: bool
  comment :: string
  markers :: "(string \<times> PoseStamped) list"

text \<open>
  Modelled from the spec: \<^verbatim>\<open>SubTrajectory::markAsFailure\<close> and
  \<^verbatim>\<open>SubTrajectory::setTrajectory\<close> are declared in a header that is not part of the
  sources at hand. The spec's sink is \<^verbatim>\<open>markAsFailure(message)\<close>, which marks the record
  as failed and attaches the message. The stage also calls it with no argument; that
  call is \<open>markAsFailure []\<close>, which has no message to attach and leaves the comment as it is.
\<close>

definition markAsFailure :: "string \<Rightarrow> SubTrajectory \<Rightarrow> SubTrajectory" where
  "markAsFailure msg sol = sol\<lparr>failure := True, comment := (if msg = [] then comment sol else msg)\<rparr>"

definition setTrajectory :: "RobotTrajectory \<Rightarrow> SubTrajectory \<Rightarrow> SubTrajectory" where
  "setTrajectory t sol = sol\<lparr>trajectory := Some t\<rparr>"

section \<open>The stage\<close>

datatype Constraints = Constraints (constraints_name: string)

datatype Direction = FORWARD | BACKWARD

text \<open>The two call shapes of \<^verbatim>\<open>PlannerInterface::plan\<close>, with the arguments the stage passes.\<close>

datatype PlanCall =
    is_PlanJoint: PlanJoint PlanningScene PlanningScene JointModelGroup real Constraints
  | is_PlanCartesian: PlanCartesian PlanningScene string Isometry3d JointModelGroup real Constraints

text \<open>
  The stage's properties, its store-failures policy and its planner. The properties
  \<open>timeout\<close>, \<open>group\<close> and \<open>path_constraints\<close> are set; \<open>ik_frame\<close> is declared as a
  stamped pose, so it is unset or holds one; \<open>goal\<close> is declared as \<^verbatim>\<open>boost::any\<close>.
  The planner returns its success flag and the trajectory it wrote, \<open>None\<close> for a pointer
  left null. It takes the scenes by pointer to const, so it is a function of their values.
\<close>

record MoveTo =
  timeout :: real
  group :: string
  ik_frame :: "PoseStamped option"
  goal :: boost_any
  path_constraints :: Constraints
  storeFailures :: bool
  planner_plan :: "PlanCall \<Rightarrow> bool \<times> RobotTrajectory option"

text \<open>
  Library functions the stage calls and whose code is elsewhere:
  \<^verbatim>\<open>utils::getRigidlyConnectedParentLinkModel\<close> (the name of the link it returns, \<open>None\<close>
  for a null pointer), \<^verbatim>\<open>tf2::toMsg\<close> on a transform, and the stream printer of a
  stamped pose.
\<close>

record Library =
  getRigidlyConnectedParentLinkModel :: "RobotState \<Rightarrow> string \<Rightarrow> string option"
  toMsg :: "Isometry3d \<Rightarrow> Pose"
  print_PoseStamped :: "PoseStamped \<Rightarrow> string"

text \<open>
  \<^verbatim>\<open>MoveTo::setGoal(const std::map<std::string, double>&)\<close>: the entries, in iteration
  order, become the joint state of a diff robot state message.
\<close>

definition setGoal :: "(string \<times> real) list \<Rightarrow> MoveTo \<Rightarrow> MoveTo" where
  "setGoal joints stg =
     stg\<lparr>goal :=
       AnyRobotState
         \<lparr>joint_state = \<lparr>js_name = map fst joints, js_position = map snd joints\<rparr>,
          multi_dof_joint_names = [],
          is_diff = True\<rparr>\<rparr>"

text \<open>
  \<^verbatim>\<open>MoveTo::init\<close>: the base class is initialised, then the planner; an exception of
  either leaves the function. Neither call is given the group property.
\<close>

definition init :: "(RobotModel \<Rightarrow> exception option) \<Rightarrow> (RobotModel \<Rightarrow> exception option) \<Rightarrow> RobotModel \<Rightarrow> exception option" where
  "init base_init planner_init m =
     (case base_init m of Some e \<Rightarrow> Some e | None \<Rightarrow> planner_init m)"

subsection \<open>\<^verbatim>\<open>MoveTo::compute\<close>\<close>

text \<open>
  How an invocation ends: it returns its flag, an exception leaves it, or it runs into
  undefined behaviour (a null link pointer dereferenced, the last waypoint of a trajectory
  without waypoints).
\<close>

datatype outcome = Returned bool | Thrown exception | Undefined_behaviour

text \<open>
  Scenes live in a store, addressed by their index. The invocation's result is its
  outcome, the store it leaves, the address it wrote to the \<^verbatim>\<open>scene\<close> reference, the
  solution record, and the planner calls it made, in order.
\<close>

record ComputeResult =
  outcome :: outcome
  heap :: "PlanningScene list"
  scene :: nat
  solution :: SubTrajectory
  planner_calls :: "PlanCall list"

text \<open>The lambda \<^verbatim>\<open>get_tip\<close>: the group's tip frame when it has exactly one.\<close>

definition get_tip :: "JointModelGroup \<Rightarrow> string option" where
  "get_tip jmg =
     (let tips = end_effector_tips jmg
      in if length tips \<noteq> 1 then None else Some (tips ! 0))"

text \<open>
  The choice of the ik frame (the \<^verbatim>\<open>if (value.empty())\<close> statement): \<open>Inl\<close> is the message
  of an early \<^verbatim>\<open>markAsFailure\<close> and \<^verbatim>\<open>return false\<close>, \<open>Inr\<close> the stamped pose
  \<^verbatim>\<open>ik_pose_msg\<close>.
\<close>

definition resolve_ik_frame :: "Library \<Rightarrow> MoveTo \<Rightarrow> JointModelGroup \<Rightarrow> PlanningScene \<Rightarrow> string + PoseStamped" where
  "resolve_ik_frame lib stg jmg sc =
     (case ik_frame stg of
        None \<Rightarrow>
          (case get_tip jmg of
             None \<Rightarrow> Inl ''missing ik_frame''
           | Some tip \<Rightarrow>
               Inr (default_PoseStamped
                     \<lparr>header := \<lparr>frame_id = tip\<rparr>,
                      pose := (pose default_PoseStamped)\<lparr>orientation := Quaternion 0 0 0 1\<rparr>\<rparr>))
      | Some value \<Rightarrow>
          (if frame_id (header value) = [] \<and> get_tip jmg = None
           then Inl ''frame_id of ik_frame is empty and no unique group tip was found''
           else
             (let ik_pose_msg =
                    (if frame_id (header value) = []
                     then value\<lparr>header := \<lparr>frame_id = the (get_tip jmg)\<rparr>\<rparr>
                     else value)
              in if \<not> knows_frame_transform sc (frame_id (header ik_pose_msg))
                 then Inl (''ik_frame specified in unknown frame '' @ quote
                           @ print_PoseStamped lib ik_pose_msg @ quote)
                 else Inr ik_pose_msg)))"

text \<open>The lambda that initialises \<^verbatim>\<open>ik_pose_world\<close>.\<close>

definition ik_pose_world :: "PlanningScene \<Rightarrow> PoseStamped \<Rightarrow> Isometry3d" where
  "ik_pose_world sc ik_pose_msg =
     iso_mul (frame_transform sc (frame_id (header ik_pose_msg))) (fromMsg_pose (pose ik_pose_msg))"

text \<open>The lambda \<^verbatim>\<open>add_frame\<close>: a frame marker, named, stamped with the planning frame.\<close>

definition add_frame :: "Library \<Rightarrow> PlanningScene \<Rightarrow> Isometry3d \<Rightarrow> string \<Rightarrow> SubTrajectory \<Rightarrow> SubTrajectory" where
  "add_frame lib sc p n sol =
     sol\<lparr>markers := markers sol @ [(n, \<lparr>header = \<lparr>frame_id = planning_frame sc\<rparr>, pose = toMsg lib p\<rparr>)]\<rparr>"

text \<open>
  The end of \<^verbatim>\<open>compute\<close>, from the comment \<^verbatim>\<open>// store result\<close> on: \<open>h\<close> is the store,
  \<open>p\<close> the scene of the input state, \<open>sc\<close> the scene of this invocation.
\<close>

definition store_result :: "MoveTo \<Rightarrow> PlanningScene list \<Rightarrow> nat \<Rightarrow> nat \<Rightarrow> SubTrajectory \<Rightarrow> Direction \<Rightarrow> bool \<Rightarrow> RobotTrajectory option \<Rightarrow> PlanCall list \<Rightarrow> ComputeResult" where
  "store_result stg h p sc sol dir success planned calls =
     (let robot_trajectory =
            (case planned of
               None \<Rightarrow>
                 if storeFailures stg
                 then Some (addSuffixWayPoint (current_state (h ! sc)) 1
                             (addSuffixWayPoint (current_state (h ! p)) 0 empty_trajectory))
                 else None
             | Some t \<Rightarrow> Some t)
      in case robot_trajectory of
           None \<Rightarrow>
             \<lparr>outcome = Returned False, heap = h, scene = sc, solution = sol, planner_calls = calls\<rparr>
         | Some t \<Rightarrow>
             if waypoints t = []
             then \<lparr>outcome = Undefined_behaviour, heap = h, scene = sc, solution = sol,
                   planner_calls = calls\<rparr>
             else
               (let h' = h[sc := (h ! sc)\<lparr>current_state := last (waypoints t)\<rparr>];
                    t' = (if dir = BACKWARD then reverse t else t);
                    sol' = setTrajectory t' sol;
                    sol'' = (if \<not> success then markAsFailure [] sol' else sol')
                in \<lparr>outcome = Returned True, heap = h', scene = sc, solution = sol'',
                    planner_calls = calls\<rparr>))"

text \<open>
  \<^verbatim>\<open>compute(state, scene, solution, dir)\<close>: \<open>p\<close> is the address of \<^verbatim>\<open>state.scene()\<close>.
  The diff of a scene is a new scene, stored at a fresh address, that reads as its parent
  until it is written.
\<close>

definition compute :: "Library \<Rightarrow> MoveTo \<Rightarrow> PlanningScene list \<Rightarrow> nat \<Rightarrow> SubTrajectory \<Rightarrow> Direction \<Rightarrow> ComputeResult" where
  "compute lib stg h p sol dir =
     (let sc = length h;
          h0 = h @ [h ! p]
      in case getJointModelGroup (robot_model (h0 ! sc)) (group stg) of
           None \<Rightarrow>
             \<lparr>outcome = Returned False, heap = h0, scene = sc,
              solution = markAsFailure (''invalid joint model group: '' @ group stg) sol,
              planner_calls = []\<rparr>
         | Some jmg \<Rightarrow>
             if goal stg = Empty
             then \<lparr>outcome = Returned False, heap = h0, scene = sc,
                   solution = markAsFailure ''undefined goal'' sol, planner_calls = []\<rparr>
             else
               (case getJointStateGoal (goal stg) jmg (current_state (h0 ! sc)) of
                  (state', r) \<Rightarrow>
                    (let h1 = h0[sc := (h0 ! sc)\<lparr>current_state := state'\<rparr>]
                     in case r of
                          Inl e \<Rightarrow>
                            \<lparr>outcome = Thrown e, heap = h1, scene = sc, solution = sol,
                             planner_calls = []\<rparr>
                        | Inr True \<Rightarrow>
                            (let call = PlanJoint (h1 ! p) (h1 ! sc) jmg (timeout stg) (path_constraints stg)
                             in case planner_plan stg call of
                                  (success, planned) \<Rightarrow>
                                    store_result stg h1 p sc sol dir success planned [call])
                        | Inr False \<Rightarrow>
                            (case resolve_ik_frame lib stg jmg (h1 ! sc) of
                               Inl msg \<Rightarrow>
                                 \<lparr>outcome = Returned False, heap = h1, scene = sc,
                                  solution = markAsFailure msg sol, planner_calls = []\<rparr>
                             | Inr ik_pose_msg \<Rightarrow>
                                 (let ikw = ik_pose_world (h1 ! sc) ik_pose_msg;
                                      resolved =
                                        (case getPoseGoal (goal stg) (h1 ! sc) of
                                           Some t \<Rightarrow> Some t
                                         | None \<Rightarrow> getPointGoal (goal stg) ikw (h1 ! sc))
                                  in case resolved of
                                       None \<Rightarrow>
                                         \<lparr>outcome = Returned False, heap = h1, scene = sc,
                                          solution = markAsFailure (''invalid goal type: '' @ type_name (goal stg)) sol,
                                          planner_calls = []\<rparr>
                                     | Some target \<Rightarrow>
                                         (let sol1 = add_frame lib (h1 ! sc) ikw ''ik frame''
                                                       (add_frame lib (h1 ! sc) target ''target frame'' sol)
                                          in case getRigidlyConnectedParentLinkModel lib (current_state (h1 ! sc))
                                                    (frame_id (header ik_pose_msg)) of
                                               None \<Rightarrow>
                                                 \<lparr>outcome = Undefined_behaviour, heap = h1, scene = sc,
                                                  solution = sol1, planner_calls = []\<rparr>
                                             | Some parent \<Rightarrow>
                                                 (let target' = iso_mul (iso_mul target (iso_inverse ikw))
                                                                  (frame_transform (h1 ! sc) parent);
                                                      call = PlanCartesian (h1 ! p) parent target' jmg
                                                               (timeout stg) (path_constraints stg)
                                                  in case planner_plan stg call of
                                                       (success, planned) \<Rightarrow>
                                                         store_result stg h1 p sc sol1 dir success planned [call])))))))"

section \<open>A small robot\<close>

text \<open>
  A group \<open>arm\<close> with the joints \<open>j1\<close> and \<open>j2\<close>, one tip frame and the default
  configuration \<open>home\<close>; the same group with two tip frames; a scene in which the frame
  \<open>tip\<close> sits one unit and the link \<open>link\<close> half a unit above the origin; a stage whose planner finds nothing, and one whose planner
  returns a trajectory of three waypoints. Only the frame \<open>tip\<close> has a rigidly connected
  parent link; the frame \<open>world\<close> is known to the scene and has none.
\<close>

definition ex_arm :: JointModelGroup where
  "ex_arm =
     \<lparr>jmg_name = ''arm'', joint_model_names = [''j1'', ''j2''], end_effector_tips = [''tip''],
      default_states = [(''home'', [(''j1'', 0), (''j2'', 0)])]\<rparr>"

definition ex_arm_two_tips :: JointModelGroup where
  "ex_arm_two_tips = ex_arm\<lparr>end_effector_tips := [''tip_a'', ''tip_b'']\<rparr>"

definition ex_scene :: "JointModelGroup \<Rightarrow> PlanningScene" where
  "ex_scene g =
     \<lparr>robot_model = \<lparr>joint_model_groups = [g]\<rparr>,
      current_state = (\<lambda>_. 0),
      frame_transform =
        (\<lambda>f. if f = ''tip'' then Identity\<lparr>translation := (0, 0, 1)\<rparr>
             else if f = ''link'' then Identity\<lparr>translation := (0, 0, 1 / 2)\<rparr>
             else Identity),
      knows_frame_transform = (\<lambda>f. f = ''world'' \<or> f = ''tip''),
      planning_frame = ''world''\<rparr>"

definition ex_lib :: Library where
  "ex_lib =
     \<lparr>getRigidlyConnectedParentLinkModel = (\<lambda>_ f. if f = ''tip'' then Some ''link'' else None),
      toMsg = (\<lambda>_. pose default_PoseStamped),
      print_PoseStamped = (\<lambda>m. frame_id (header m))\<rparr>"

definition ex_stage :: "boost_any \<Rightarrow> MoveTo" where
  "ex_stage g =
     \<lparr>timeout = 1, group = ''arm'', ik_frame = None, goal = g,
      path_constraints = Constraints [], storeFailures = True,
      planner_plan = (\<lambda>_. (False, None))\<rparr>"

definition ex_planned :: RobotTrajectory where
  "ex_planned =
     \<lparr>waypoints = [\<lambda>_. 0, (\<lambda>_. 0)(''j1'' := 1 / 4), (\<lambda>_. 0)(''j1'' := 1 / 2)],
      duration_from_previous = [0, 1, 2]\<rparr>"

definition ex_stage_ok :: "boost_any \<Rightarrow> MoveTo" where
  "ex_stage_ok g = (ex_stage g)\<lparr>planner_plan := (\<lambda>_. (True, Some ex_planned))\<rparr>"

definition ex_gripper :: JointModelGroup where
  "ex_gripper = ex_arm\<lparr>jmg_name := ''gripper''\<rparr>"

definition ex_solution :: SubTrajectory where
  "ex_solution = \<lparr>trajectory = None, failure = False, comment = [], markers = []\<rparr>"

definition ex_point :: PointStamped where
  "ex_point = \<lparr>point_header = \<lparr>frame_id = ''world''\<rparr>, point = Point 0 0 1\<rparr>"

definition ex_pose :: PoseStamped where
  "ex_pose =
     \<lparr>header = \<lparr>frame_id = ''world''\<rparr>,
      pose = \<lparr>position = Point 1 2 3, orientation = Quaternion 0 0 0 1\<rparr>\<rparr>"

definition ex_ik_world :: PoseStamped where
  "ex_ik_world =
     \<lparr>header = \<lparr>frame_id = ''world''\<rparr>,
      pose = \<lparr>position = Point 0 0 0, orientation = Quaternion 0 0 0 1\<rparr>\<rparr>"

section \<open>Properties\<close>

subsection \<open>The store\<close>

lemma store_result_heap:
  "a \<noteq> sc \<Longrightarrow> heap (store_result stg h p sc sol dir success planned calls) ! a = h ! a"
  by (simp add: store_result_def Let_def split: option.splits)

lemma store_result_scene:
  "scene (store_result stg h p sc sol dir success planned calls) = sc"
  by (simp add: store_result_def Let_def split: option.splits)

lemma store_result_length:
  "length (heap (store_result stg h p sc sol dir success planned calls)) = length h"
  by (simp add: store_result_def Let_def split: option.splits)

text \<open>
  C9: On every path of an invocation (a returned flag, an exception, undefined behaviour)
  every scene that was in the store before, the parent scene of the input state among
  them, is left as it was: the invocation writes only to the scene it created, which
  sits at a fresh address.
\<close>

theorem compute_parent_unchanged:
  assumes "a < length h"
  shows "heap (compute lib stg h p sol dir) ! a = h ! a
    \<and> scene (compute lib stg h p sol dir) = length h
    \<and> length (heap (compute lib stg h p sol dir)) = Suc (length h)"
  using assms
  by (simp add: compute_def Let_def store_result_heap store_result_scene store_result_length nth_append
      split: option.splits sum.splits prod.splits bool.splits)

theorem compute_parent_unchanged_witness:
  "heap (compute ex_lib (ex_stage (AnyJointMap [(''j1'', 1 / 2)])) [ex_scene ex_arm] 0 ex_solution FORWARD) ! 0
     = ex_scene ex_arm
   \<and> scene (compute ex_lib (ex_stage (AnyJointMap [(''j1'', 1 / 2)])) [ex_scene ex_arm] 0 ex_solution FORWARD) = 1
   \<and> current_state (heap (compute ex_lib (ex_stage (AnyJointMap [(''j1'', 1 / 2)])) [ex_scene ex_arm] 0 ex_solution FORWARD) ! 1) ''j1'' = 1 / 2
   \<and> current_state (ex_scene ex_arm) ''j1'' = 0"
proof -
  have "(0::nat) < length [ex_scene ex_arm]" by simp
  from compute_parent_unchanged [OF this, of ex_lib "ex_stage (AnyJointMap [(''j1'', 1 / 2)])" 0 ex_solution FORWARD]
  show ?thesis
    apply simp
    apply (simp add: compute_def store_result_def ex_stage_def ex_scene_def ex_arm_def getJointModelGroup_def
      getJointStateGoal_def setVariablePosition_def addSuffixWayPoint_def empty_trajectory_def Let_def)
    done
qed

subsection \<open>Point goals\<close>

text \<open>
  C4: For a point goal the resolved target, before the final re-basing, has the rotation
  of the ik frame's world pose it was given and, as translation, the goal position mapped
  by the scene transform of the goal's frame; the pose probe and the joint-space probe
  both decline a point goal, so this is the target of every point goal.
\<close>

theorem getPointGoal_target:
  "getPointGoal (AnyPointStamped m) ik_pose sc =
     Some \<lparr>rotation = rotation ik_pose,
           translation = iso_apply (frame_transform sc (frame_id (point_header m)))
                           (point_x (point m), point_y (point m), point_z (point m))\<rparr>
   \<and> getPoseGoal (AnyPointStamped m) sc = None
   \<and> getJointStateGoal (AnyPointStamped m) jmg s = (s, Inr False)"
  by (simp add: getPointGoal_def getPoseGoal_def getJointStateGoal_def fromMsg_point_def Let_def)

theorem getPointGoal_target_witness:
  "getPointGoal (AnyPointStamped ex_point) Identity (ex_scene ex_arm) =
     Some \<lparr>rotation = ((1, 0, 0), (0, 1, 0), (0, 0, 1)), translation = (0, 0, 1)\<rparr>"
  using getPointGoal_target [of ex_point Identity "ex_scene ex_arm" ex_arm "\<lambda>_. 0"]
  by (simp add: ex_point_def ex_scene_def Identity_def iso_apply_def)

subsection \<open>Joint maps\<close>

lemma set_joint_map_bad:
  assumes "\<exists>e \<in> set m. fst e \<notin> set accepted"
  shows "set_joint_map accepted g m s =
     (setVariablePositions (takeWhile (\<lambda>e. fst e \<in> set accepted) m) s,
      Some (not_part_of_group (fst (hd (dropWhile (\<lambda>e. fst e \<in> set accepted) m))) g))"
  using assms
  by (induction accepted g m s rule: set_joint_map.induct) auto

lemma setVariablePositions_other:
  "j \<notin> fst ` set m \<Longrightarrow> setVariablePositions m s j = s j"
  by (induction m s rule: setVariablePositions.induct) (auto simp: setVariablePosition_def)

text \<open>
  C6: A joint-map goal with a key outside the group makes goal resolution throw. The
  exception's message names the first such key, in iteration order, and the group. The
  working configuration holds the values of the entries before that key and of no other:
  every joint that is not among them, the offending one and all later ones included,
  keeps the position it had.
\<close>

theorem joint_map_unknown_joint:
  assumes "\<exists>e \<in> set m. fst e \<notin> set (joint_model_names jmg)"
  shows "getJointStateGoal (AnyJointMap m) jmg s =
     (setVariablePositions (takeWhile (\<lambda>e. fst e \<in> set (joint_model_names jmg)) m) s,
      Inl (InitStageException
             (''Joint '' @ quote @ fst (hd (dropWhile (\<lambda>e. fst e \<in> set (joint_model_names jmg)) m)) @ quote
              @ '' is not part of group '' @ quote @ jmg_name jmg @ quote)))
   \<and> hd (dropWhile (\<lambda>e. fst e \<in> set (joint_model_names jmg)) m) \<in> set m
   \<and> fst (hd (dropWhile (\<lambda>e. fst e \<in> set (joint_model_names jmg)) m)) \<notin> set (joint_model_names jmg)
   \<and> (\<forall>j. j \<notin> fst ` set (takeWhile (\<lambda>e. fst e \<in> set (joint_model_names jmg)) m)
          \<longrightarrow> fst (getJointStateGoal (AnyJointMap m) jmg s) j = s j)"
proof -
  let ?P = "\<lambda>e. fst e \<in> set (joint_model_names jmg)"
  have ne: "dropWhile ?P m \<noteq> []" using assms by (auto simp: dropWhile_eq_Nil_conv)
  have g: "getJointStateGoal (AnyJointMap m) jmg s =
     (setVariablePositions (takeWhile ?P m) s,
      Inl (not_part_of_group (fst (hd (dropWhile ?P m))) (jmg_name jmg)))"
    by (simp add: getJointStateGoal_def set_joint_map_bad [OF assms])
  have "hd (dropWhile ?P m) \<in> set (dropWhile ?P m)" using ne by simp
  then have mem: "hd (dropWhile ?P m) \<in> set m" using set_dropWhileD by fast
  have bad: "\<not> ?P (hd (dropWhile ?P m))" using ne hd_dropWhile by blast
  show ?thesis
    using g mem bad by (simp add: not_part_of_group_def setVariablePositions_other)
qed

theorem joint_map_unknown_joint_witness:
  "getJointStateGoal (AnyJointMap [(''j1'', 1 / 2), (''jX'', 1), (''j2'', 2)]) ex_arm (\<lambda>_. 0) =
     ((\<lambda>_. 0)(''j1'' := 1 / 2),
      Inl (InitStageException (''Joint '' @ quote @ ''jX'' @ quote @ '' is not part of group '' @ quote @ ''arm'' @ quote)))"
proof -
  have "\<exists>e \<in> set [(''j1'', 1 / 2 :: real), (''jX'', 1), (''j2'', 2)]. fst e \<notin> set (joint_model_names ex_arm)"
    by (simp add: ex_arm_def)
  from joint_map_unknown_joint [OF this, of "\<lambda>_. 0"]
  show ?thesis
    by (simp add: ex_arm_def setVariablePosition_def)
qed

subsection \<open>The joint-map setter\<close>

lemma validate_joints_None:
  "validate_joints accepted g ns = None \<longleftrightarrow> (\<forall>n \<in> set ns. n \<in> set accepted)"
  by (induction ns) auto

lemma validate_joints_Some:
  "validate_joints accepted g ns = Some e \<Longrightarrow>
     e = not_part_of_group (hd (dropWhile (\<lambda>n. n \<in> set accepted) ns)) g
     \<and> hd (dropWhile (\<lambda>n. n \<in> set accepted) ns) \<in> set ns
     \<and> hd (dropWhile (\<lambda>n. n \<in> set accepted) ns) \<notin> set accepted"
  by (induction ns) (auto split: if_splits)

text \<open>
  C10: The setter stores a robot state message with the diff flag set, whose joint names
  and positions are the entries of the map, in order. Such a goal is neither a string nor
  a joint map to the probes, so the RobotState branch interprets it: it matches exactly
  when every named joint belongs to the group, writing the positions, and throws
  otherwise, naming the first joint outside the group and leaving the state as it was.
\<close>

theorem setGoal_joint_map:
  "goal (setGoal joints stg) =
     AnyRobotState \<lparr>joint_state = \<lparr>js_name = map fst joints, js_position = map snd joints\<rparr>,
                    multi_dof_joint_names = [], is_diff = True\<rparr>
   \<and> any_cast_string (goal (setGoal joints stg)) = None
   \<and> any_cast_joint_map (goal (setGoal joints stg)) = None
   \<and> (snd (getJointStateGoal (goal (setGoal joints stg)) jmg s) = Inr True
        \<longleftrightarrow> (\<forall>n \<in> set (map fst joints). n \<in> set (joint_model_names jmg)))
   \<and> ((\<forall>n \<in> set (map fst joints). n \<in> set (joint_model_names jmg))
        \<longrightarrow> getJointStateGoal (goal (setGoal joints stg)) jmg s = (setVariablePositions joints s, Inr True))
   \<and> (\<not> (\<forall>n \<in> set (map fst joints). n \<in> set (joint_model_names jmg))
        \<longrightarrow> getJointStateGoal (goal (setGoal joints stg)) jmg s =
              (s, Inl (not_part_of_group
                         (hd (dropWhile (\<lambda>n. n \<in> set (joint_model_names jmg)) (map fst joints)))
                         (jmg_name jmg))))"
proof (cases "validate_joints (joint_model_names jmg) (jmg_name jmg) (map fst joints)")
  case None
  then have "\<forall>n \<in> set (map fst joints). n \<in> set (joint_model_names jmg)"
    by (simp only: validate_joints_None)
  with None show ?thesis
    by (simp add: setGoal_def getJointStateGoal_def robotStateMsgToRobotState_def zip_map_fst_snd)
next
  case (Some e)
  have nall: "\<not> (\<forall>n \<in> set (map fst joints). n \<in> set (joint_model_names jmg))"
    using Some validate_joints_None [of "joint_model_names jmg" "jmg_name jmg" "map fst joints"] by simp
  from validate_joints_Some [OF Some] Some nall show ?thesis
    by (simp add: setGoal_def getJointStateGoal_def)
qed

theorem setGoal_joint_map_witness:
  "snd (getJointStateGoal (goal (setGoal [(''j1'', 1 / 2), (''j2'', - 3 / 10)] (ex_stage Empty))) ex_arm (\<lambda>_. 0)) = Inr True
   \<and> fst (getJointStateGoal (goal (setGoal [(''j1'', 1 / 2), (''j2'', - 3 / 10)] (ex_stage Empty))) ex_arm (\<lambda>_. 0)) ''j2'' = - 3 / 10
   \<and> getJointStateGoal (goal (setGoal [(''j1'', 1 / 2), (''jX'', 1)] (ex_stage Empty))) ex_arm (\<lambda>_. 0) =
       (\<lambda>_. 0, Inl (not_part_of_group ''jX'' ''arm''))"
proof -
  have a: "\<forall>n \<in> set (map fst [(''j1'', 1 / 2 :: real), (''j2'', - 3 / 10)]). n \<in> set (joint_model_names ex_arm)"
    by (simp add: ex_arm_def)
  have b: "\<not> (\<forall>n \<in> set (map fst [(''j1'', 1 / 2 :: real), (''jX'', 1)]). n \<in> set (joint_model_names ex_arm))"
    by (simp add: ex_arm_def)
  have t1: "getJointStateGoal (goal (setGoal [(''j1'', 1 / 2), (''j2'', - 3 / 10)] (ex_stage Empty))) ex_arm (\<lambda>_. 0)
      = (setVariablePositions [(''j1'', 1 / 2), (''j2'', - 3 / 10)] (\<lambda>_. 0), Inr True)"
    using setGoal_joint_map [of "[(''j1'', 1 / 2), (''j2'', - 3 / 10)]" "ex_stage Empty" ex_arm "\<lambda>_. 0"] a
    by blast
  have t2: "getJointStateGoal (goal (setGoal [(''j1'', 1 / 2), (''jX'', 1)] (ex_stage Empty))) ex_arm (\<lambda>_. 0)
      = (\<lambda>_. 0, Inl (not_part_of_group
                         (hd (dropWhile (\<lambda>n. n \<in> set (joint_model_names ex_arm)) (map fst [(''j1'', 1 / 2 :: real), (''jX'', 1)])))
                         (jmg_name ex_arm)))"
    using setGoal_joint_map [of "[(''j1'', 1 / 2), (''jX'', 1)]" "ex_stage Empty" ex_arm "\<lambda>_. 0"] b
    by blast
  show ?thesis
    unfolding t1 t2 by (simp add: ex_arm_def setVariablePosition_def)
qed

subsection \<open>The three branches of an invocation\<close>

lemma store_result_calls:
  "planner_calls (store_result stg h p sc sol dir success planned calls) = calls"
  by (simp add: store_result_def Let_def split: option.splits)

lemma store_result_not_thrown:
  "outcome (store_result stg h p sc sol dir success planned calls) \<noteq> Thrown e"
  by (simp add: store_result_def Let_def split: option.splits)

lemma compute_thrown:
  assumes "p < length h"
    and "getJointModelGroup (robot_model (h ! p)) (group stg) = Some jmg"
    and "getJointStateGoal (goal stg) jmg (current_state (h ! p)) = (s', Inl e)"
  shows "compute lib stg h p sol dir =
     \<lparr>outcome = Thrown e, heap = h @ [(h ! p)\<lparr>current_state := s'\<rparr>], scene = length h,
      solution = sol, planner_calls = []\<rparr>"
proof -
  have "goal stg \<noteq> Empty" using assms(3) by (auto simp: getJointStateGoal_def)
  then show ?thesis using assms by (simp add: compute_def Let_def)
qed

lemma compute_joint:
  assumes "p < length h"
    and "getJointModelGroup (robot_model (h ! p)) (group stg) = Some jmg"
    and "getJointStateGoal (goal stg) jmg (current_state (h ! p)) = (s', Inr True)"
  shows "compute lib stg h p sol dir =
     (case planner_plan stg (PlanJoint (h ! p) ((h ! p)\<lparr>current_state := s'\<rparr>) jmg (timeout stg) (path_constraints stg)) of
        (success, planned) \<Rightarrow>
          store_result stg (h @ [(h ! p)\<lparr>current_state := s'\<rparr>]) p (length h) sol dir success planned
            [PlanJoint (h ! p) ((h ! p)\<lparr>current_state := s'\<rparr>) jmg (timeout stg) (path_constraints stg)])"
proof -
  have "goal stg \<noteq> Empty" using assms(3) by (auto simp: getJointStateGoal_def)
  then show ?thesis using assms by (simp add: compute_def Let_def nth_append)
qed

lemma getJointStateGoal_False:
  "snd (getJointStateGoal g jmg s) = Inr False \<longleftrightarrow>
     any_cast_string g = None \<and> any_cast_RobotState g = None \<and> any_cast_joint_map g = None"
  by (auto simp: getJointStateGoal_def split: option.splits prod.splits)

lemma getJointStateGoal_False_state:
  "getJointStateGoal g jmg s = (s', Inr False) \<Longrightarrow> s' = s"
  by (auto simp: getJointStateGoal_def split: option.splits prod.splits if_splits)

lemma compute_cartesian:
  assumes "p < length h"
    and "getJointModelGroup (robot_model (h ! p)) (group stg) = Some jmg"
    and "goal stg \<noteq> Empty"
    and "snd (getJointStateGoal (goal stg) jmg (current_state (h ! p))) = Inr False"
  shows "compute lib stg h p sol dir =
     (case resolve_ik_frame lib stg jmg (h ! p) of
        Inl msg \<Rightarrow>
          \<lparr>outcome = Returned False, heap = h @ [h ! p], scene = length h,
           solution = markAsFailure msg sol, planner_calls = []\<rparr>
      | Inr ik_pose_msg \<Rightarrow>
          (case (case getPoseGoal (goal stg) (h ! p) of
                   Some t \<Rightarrow> Some t
                 | None \<Rightarrow> getPointGoal (goal stg) (ik_pose_world (h ! p) ik_pose_msg) (h ! p)) of
             None \<Rightarrow>
               \<lparr>outcome = Returned False, heap = h @ [h ! p], scene = length h,
                solution = markAsFailure (''invalid goal type: '' @ type_name (goal stg)) sol,
                planner_calls = []\<rparr>
           | Some target \<Rightarrow>
               (case getRigidlyConnectedParentLinkModel lib (current_state (h ! p)) (frame_id (header ik_pose_msg)) of
                  None \<Rightarrow>
                    \<lparr>outcome = Undefined_behaviour, heap = h @ [h ! p], scene = length h,
                     solution = add_frame lib (h ! p) (ik_pose_world (h ! p) ik_pose_msg) ''ik frame''
                                  (add_frame lib (h ! p) target ''target frame'' sol),
                     planner_calls = []\<rparr>
                | Some parent \<Rightarrow>
                    (case planner_plan stg
                            (PlanCartesian (h ! p) parent
                               (iso_mul (iso_mul target (iso_inverse (ik_pose_world (h ! p) ik_pose_msg)))
                                  (frame_transform (h ! p) parent))
                               jmg (timeout stg) (path_constraints stg)) of
                       (success, planned) \<Rightarrow>
                         store_result stg (h @ [h ! p]) p (length h)
                           (add_frame lib (h ! p) (ik_pose_world (h ! p) ik_pose_msg) ''ik frame''
                              (add_frame lib (h ! p) target ''target frame'' sol))
                           dir success planned
                           [PlanCartesian (h ! p) parent
                              (iso_mul (iso_mul target (iso_inverse (ik_pose_world (h ! p) ik_pose_msg)))
                                 (frame_transform (h ! p) parent))
                              jmg (timeout stg) (path_constraints stg)]))))"
proof -
  obtain s' where g: "getJointStateGoal (goal stg) jmg (current_state (h ! p)) = (s', Inr False)"
    using assms(4) by (cases "getJointStateGoal (goal stg) jmg (current_state (h ! p))") auto
  then have s': "s' = current_state (h ! p)" by (rule getJointStateGoal_False_state)
  show ?thesis
    using assms(1-3) g unfolding s'
    by (simp add: compute_def Let_def nth_append split: sum.splits option.splits prod.splits)
qed


subsection \<open>Goal interpretation\<close>

text \<open>
  C2: Joint-space interpretation probes for a named pose, then a robot state message,
  then a joint map, and reports no match exactly when the goal is none of the three. A
  goal of one of the three kinds that is invalid (a pose name the group does not know, a
  message that is not a diff, a joint outside the group) throws, and the exception leaves
  the invocation with no planner call and the solution untouched; it never reports no
  match. A pose or point goal is no match, with the state untouched and no exception:
  the invocation goes on to resolve the ik frame, and any planner call it makes is
  Cartesian.
\<close>

theorem joint_goal_interpretation:
  assumes "p < length h"
    and "getJointModelGroup (robot_model (h ! p)) (group stg) = Some jmg"
  shows
   "(snd (getJointStateGoal (goal stg) jmg (current_state (h ! p))) = Inr False \<longleftrightarrow>
       any_cast_string (goal stg) = None \<and> any_cast_RobotState (goal stg) = None
       \<and> any_cast_joint_map (goal stg) = None)
    \<and> (\<forall>n. goal stg = AnyString n \<and> map_of (default_states jmg) n = None \<longrightarrow>
          outcome (compute lib stg h p sol dir)
            = Thrown (InitStageException (''Unknown joint pose: '' @ n)))
    \<and> (\<forall>msg. goal stg = AnyRobotState msg \<and> \<not> is_diff msg \<longrightarrow>
          outcome (compute lib stg h p sol dir)
            = Thrown (InitStageException ''Expecting a diff state''))
    \<and> (\<forall>msg. goal stg = AnyRobotState msg \<and> is_diff msg
            \<and> (\<exists>n \<in> set (js_name (joint_state msg) @ multi_dof_joint_names msg).
                  n \<notin> set (joint_model_names jmg)) \<longrightarrow>
          (\<exists>n \<in> set (js_name (joint_state msg) @ multi_dof_joint_names msg).
             n \<notin> set (joint_model_names jmg)
             \<and> outcome (compute lib stg h p sol dir) = Thrown (not_part_of_group n (jmg_name jmg))))
    \<and> (\<forall>m. goal stg = AnyJointMap m \<and> (\<exists>e \<in> set m. fst e \<notin> set (joint_model_names jmg)) \<longrightarrow>
          (\<exists>e \<in> set m. fst e \<notin> set (joint_model_names jmg)
             \<and> outcome (compute lib stg h p sol dir) = Thrown (not_part_of_group (fst e) (jmg_name jmg))))
    \<and> (\<forall>e. snd (getJointStateGoal (goal stg) jmg (current_state (h ! p))) = Inl e \<longrightarrow>
          outcome (compute lib stg h p sol dir) = Thrown e
          \<and> planner_calls (compute lib stg h p sol dir) = []
          \<and> solution (compute lib stg h p sol dir) = sol)
    \<and> ((\<exists>m. goal stg = AnyPoseStamped m) \<or> (\<exists>m. goal stg = AnyPointStamped m) \<longrightarrow>
          getJointStateGoal (goal stg) jmg (current_state (h ! p)) = (current_state (h ! p), Inr False)
          \<and> (\<forall>e. outcome (compute lib stg h p sol dir) \<noteq> Thrown e)
          \<and> (\<forall>c \<in> set (planner_calls (compute lib stg h p sol dir)). is_PlanCartesian c)
          \<and> (\<forall>msg. resolve_ik_frame lib stg jmg (h ! p) = Inl msg \<longrightarrow>
                outcome (compute lib stg h p sol dir) = Returned False
                \<and> solution (compute lib stg h p sol dir) = markAsFailure msg sol))"
proof -
  let ?s = "current_state (h ! p)"
  let ?r = "compute lib stg h p sol dir"
  have thrown: "outcome ?r = Thrown e \<and> planner_calls ?r = [] \<and> solution ?r = sol"
    if "snd (getJointStateGoal (goal stg) jmg ?s) = Inl e" for e
  proof -
    have "getJointStateGoal (goal stg) jmg ?s = (fst (getJointStateGoal (goal stg) jmg ?s), Inl e)"
      using that by (simp add: prod_eq_iff)
    from compute_thrown [OF assms this] show ?thesis by simp
  qed
  have c1: "snd (getJointStateGoal (goal stg) jmg ?s) = Inr False \<longleftrightarrow>
       any_cast_string (goal stg) = None \<and> any_cast_RobotState (goal stg) = None
       \<and> any_cast_joint_map (goal stg) = None"
    by (rule getJointStateGoal_False)
  have c2: "outcome ?r = Thrown (InitStageException (''Unknown joint pose: '' @ n))"
    if "goal stg = AnyString n \<and> map_of (default_states jmg) n = None" for n
    using that by (intro conjunct1 [OF thrown]) (simp add: getJointStateGoal_def setToDefaultValues_def)
  have c3: "outcome ?r = Thrown (InitStageException ''Expecting a diff state'')"
    if "goal stg = AnyRobotState msg \<and> \<not> is_diff msg" for msg
    using that by (intro conjunct1 [OF thrown]) (simp add: getJointStateGoal_def)
  have c4: "\<exists>n \<in> set (js_name (joint_state msg) @ multi_dof_joint_names msg).
             n \<notin> set (joint_model_names jmg)
             \<and> outcome ?r = Thrown (not_part_of_group n (jmg_name jmg))"
    if a: "goal stg = AnyRobotState msg \<and> is_diff msg
            \<and> (\<exists>n \<in> set (js_name (joint_state msg) @ multi_dof_joint_names msg).
                  n \<notin> set (joint_model_names jmg))" for msg
  proof (cases "validate_joints (joint_model_names jmg) (jmg_name jmg) (js_name (joint_state msg))")
    case (Some e)
    from validate_joints_Some [OF Some] obtain n where
      n: "n \<in> set (js_name (joint_state msg))" "n \<notin> set (joint_model_names jmg)"
         "e = not_part_of_group n (jmg_name jmg)" by blast
    have "snd (getJointStateGoal (goal stg) jmg ?s) = Inl e"
      using a Some by (simp add: getJointStateGoal_def)
    from thrown [OF this] n show ?thesis by auto
  next
    case None
    then have ok: "\<forall>n \<in> set (js_name (joint_state msg)). n \<in> set (joint_model_names jmg)"
      by (simp only: validate_joints_None)
    with a have "validate_joints (joint_model_names jmg) (jmg_name jmg) (multi_dof_joint_names msg) \<noteq> None"
      by (auto simp: validate_joints_None)
    then obtain e where
      Some: "validate_joints (joint_model_names jmg) (jmg_name jmg) (multi_dof_joint_names msg) = Some e"
      by auto
    from validate_joints_Some [OF Some] obtain n where
      n: "n \<in> set (multi_dof_joint_names msg)" "n \<notin> set (joint_model_names jmg)"
         "e = not_part_of_group n (jmg_name jmg)" by blast
    have "snd (getJointStateGoal (goal stg) jmg ?s) = Inl e"
      using a None Some by (simp add: getJointStateGoal_def)
    from thrown [OF this] n show ?thesis by auto
  qed
  have c5: "\<exists>e \<in> set m. fst e \<notin> set (joint_model_names jmg)
             \<and> outcome ?r = Thrown (not_part_of_group (fst e) (jmg_name jmg))"
    if a: "goal stg = AnyJointMap m \<and> (\<exists>e \<in> set m. fst e \<notin> set (joint_model_names jmg))" for m
  proof -
    let ?P = "\<lambda>e. fst e \<in> set (joint_model_names jmg)"
    from a have bad: "\<exists>e \<in> set m. fst e \<notin> set (joint_model_names jmg)" by simp
    have ne: "dropWhile ?P m \<noteq> []" using bad by (auto simp: dropWhile_eq_Nil_conv)
    have "hd (dropWhile ?P m) \<in> set (dropWhile ?P m)" using ne by simp
    then have mem: "hd (dropWhile ?P m) \<in> set m" using set_dropWhileD by fast
    have nP: "\<not> ?P (hd (dropWhile ?P m))" using ne hd_dropWhile by blast
    have "snd (getJointStateGoal (goal stg) jmg ?s)
            = Inl (not_part_of_group (fst (hd (dropWhile ?P m))) (jmg_name jmg))"
      using a by (simp add: getJointStateGoal_def set_joint_map_bad [OF bad])
    from thrown [OF this] mem nP show ?thesis by blast
  qed
  have c7: "getJointStateGoal (goal stg) jmg ?s = (?s, Inr False)
          \<and> (\<forall>e. outcome ?r \<noteq> Thrown e)
          \<and> (\<forall>c \<in> set (planner_calls ?r). is_PlanCartesian c)
          \<and> (\<forall>msg. resolve_ik_frame lib stg jmg (h ! p) = Inl msg \<longrightarrow>
                outcome ?r = Returned False \<and> solution ?r = markAsFailure msg sol)"
    if a: "(\<exists>m. goal stg = AnyPoseStamped m) \<or> (\<exists>m. goal stg = AnyPointStamped m)"
  proof -
    from a have g: "getJointStateGoal (goal stg) jmg ?s = (?s, Inr False)"
      by (auto simp: getJointStateGoal_def)
    from a have ne: "goal stg \<noteq> Empty" by auto
    have f: "snd (getJointStateGoal (goal stg) jmg ?s) = Inr False" using g by simp
    note cc = compute_cartesian [OF assms ne f, of lib sol dir]
    have "\<forall>e. outcome ?r \<noteq> Thrown e"
      unfolding cc by (simp add: store_result_not_thrown split: sum.splits option.splits prod.splits)
    moreover have "\<forall>c \<in> set (planner_calls ?r). is_PlanCartesian c"
      unfolding cc by (simp add: store_result_calls split: sum.splits option.splits prod.splits)
    moreover have "\<forall>msg. resolve_ik_frame lib stg jmg (h ! p) = Inl msg \<longrightarrow>
                outcome ?r = Returned False \<and> solution ?r = markAsFailure msg sol"
      unfolding cc by simp
    ultimately show ?thesis using g by blast
  qed
  show ?thesis
    using c1 c2 c3 c4 c5 thrown c7 by blast
qed


lemma ex_group_found:
  "getJointModelGroup (robot_model (ex_scene g)) (group (ex_stage x)) = (if jmg_name g = ''arm'' then Some g else None)"
  by (simp add: getJointModelGroup_def ex_scene_def ex_stage_def)

theorem joint_goal_interpretation_witness:
  "outcome (compute ex_lib (ex_stage (AnyString ''nowhere'')) [ex_scene ex_arm] 0 ex_solution FORWARD)
     = Thrown (InitStageException ''Unknown joint pose: nowhere'')
   \<and> getJointStateGoal (AnyPoseStamped ex_pose) ex_arm (\<lambda>_. 0) = (\<lambda>_. 0, Inr False)
   \<and> planner_calls (compute ex_lib (ex_stage (AnyString ''nowhere'')) [ex_scene ex_arm] 0 ex_solution FORWARD) = []"
proof -
  have l: "(0::nat) < length [ex_scene ex_arm]" by simp
  have g: "getJointModelGroup (robot_model ([ex_scene ex_arm] ! 0)) (group (ex_stage x)) = Some ex_arm" for x
    by (simp add: ex_group_found ex_arm_def)
  note t1 = joint_goal_interpretation [OF l g, of "AnyString ''nowhere''" ex_lib ex_solution FORWARD]
  note t2 = joint_goal_interpretation [OF l g, of "AnyPoseStamped ex_pose" ex_lib ex_solution FORWARD]
  have a: "goal (ex_stage (AnyString ''nowhere'')) = AnyString ''nowhere''
      \<and> map_of (default_states ex_arm) ''nowhere'' = None"
    by (simp add: ex_stage_def ex_arm_def)
  have o: "outcome (compute ex_lib (ex_stage (AnyString ''nowhere'')) [ex_scene ex_arm] 0 ex_solution FORWARD)
     = Thrown (InitStageException (''Unknown joint pose: '' @ ''nowhere''))"
    using t1 a by blast
  have "snd (getJointStateGoal (goal (ex_stage (AnyString ''nowhere''))) ex_arm (current_state ([ex_scene ex_arm] ! 0)))
     = Inl (InitStageException (''Unknown joint pose: '' @ ''nowhere''))"
    by (simp add: getJointStateGoal_def ex_stage_def setToDefaultValues_def ex_arm_def)
  with t1 have c: "planner_calls (compute ex_lib (ex_stage (AnyString ''nowhere'')) [ex_scene ex_arm] 0 ex_solution FORWARD) = []"
    by blast
  have "\<exists>m. goal (ex_stage (AnyPoseStamped ex_pose)) = AnyPoseStamped m"
    by (simp add: ex_stage_def)
  with t2 have "getJointStateGoal (goal (ex_stage (AnyPoseStamped ex_pose))) ex_arm (current_state ([ex_scene ex_arm] ! 0))
      = (current_state ([ex_scene ex_arm] ! 0), Inr False)"
    by blast
  then have p: "getJointStateGoal (AnyPoseStamped ex_pose) ex_arm (\<lambda>_. 0) = (\<lambda>_. 0, Inr False)"
    by (simp add: ex_stage_def ex_scene_def)
  from o c p show ?thesis by simp
qed

subsection \<open>The Cartesian target\<close>

text \<open>
  When the ik frame resolves and the lookup of its rigidly connected parent link returns a
  link, a pose or point goal leads to exactly one planner call, in the Cartesian shape, with
  that link as the moving body and with the target
  \<open>resolved target * inverse (ik frame world pose) * frame transform of the parent link\<close>.
\<close>

lemma cartesian_target_rebased:
  assumes "p < length h"
    and "getJointModelGroup (robot_model (h ! p)) (group stg) = Some jmg"
    and "resolve_ik_frame lib stg jmg (h ! p) = Inr ik_pose_msg"
    and "(\<exists>m. goal stg = AnyPoseStamped m
              \<and> target = iso_mul (frame_transform (h ! p) (frame_id (header m))) (fromMsg_pose (pose m)))
         \<or> (\<exists>m. goal stg = AnyPointStamped m
              \<and> target = (ik_pose_world (h ! p) ik_pose_msg)
                  \<lparr>translation := iso_apply (frame_transform (h ! p) (frame_id (point_header m)))
                                    (fromMsg_point (point m))\<rparr>)"
    and "getRigidlyConnectedParentLinkModel lib (current_state (h ! p)) (frame_id (header ik_pose_msg))
           = Some parent"
  shows "planner_calls (compute lib stg h p sol dir) =
     [PlanCartesian (h ! p) parent
        (iso_mul (iso_mul target (iso_inverse (ik_pose_world (h ! p) ik_pose_msg)))
           (frame_transform (h ! p) parent))
        jmg (timeout stg) (path_constraints stg)]"
proof -
  from assms(4) have ne: "goal stg \<noteq> Empty" by auto
  from assms(4) have f: "snd (getJointStateGoal (goal stg) jmg (current_state (h ! p))) = Inr False"
    by (auto simp: getJointStateGoal_def)
  from assms(4) have t: "(case getPoseGoal (goal stg) (h ! p) of
                   Some t \<Rightarrow> Some t
                 | None \<Rightarrow> getPointGoal (goal stg) (ik_pose_world (h ! p) ik_pose_msg) (h ! p)) = Some target"
    by (auto simp: getPoseGoal_def getPointGoal_def Let_def)
  show ?thesis
    unfolding compute_cartesian [OF assms(1,2) ne f]
    by (simp add: assms(3,5) t store_result_calls split: prod.splits)
qed

lemma cartesian_target_rebased_example:
  "planner_calls (compute ex_lib (ex_stage (AnyPoseStamped ex_pose)) [ex_scene ex_arm] 0 ex_solution FORWARD) =
     [PlanCartesian (ex_scene ex_arm) ''link''
        \<lparr>rotation = ((1, 0, 0), (0, 1, 0), (0, 0, 1)), translation = (1, 2, 5 / 2)\<rparr>
        ex_arm 1 (Constraints [])]"
proof -
  let ?msg = "\<lparr>header = \<lparr>frame_id = ''tip''\<rparr>,
               pose = \<lparr>position = Point 0 0 0, orientation = Quaternion 0 0 0 1\<rparr>\<rparr>"
  let ?target = "\<lparr>rotation = ((1, 0, 0), (0, 1, 0), (0, 0, 1)), translation = (1, 2, 3)\<rparr> :: Isometry3d"
  have l: "(0::nat) < length [ex_scene ex_arm]" by simp
  have g: "getJointModelGroup (robot_model ([ex_scene ex_arm] ! 0)) (group (ex_stage (AnyPoseStamped ex_pose))) = Some ex_arm"
    by (simp add: ex_group_found ex_arm_def)
  have r: "resolve_ik_frame ex_lib (ex_stage (AnyPoseStamped ex_pose)) ex_arm ([ex_scene ex_arm] ! 0) = Inr ?msg"
    by (simp add: resolve_ik_frame_def ex_stage_def get_tip_def ex_arm_def default_PoseStamped_def ex_scene_def)
  have t: "(\<exists>m. goal (ex_stage (AnyPoseStamped ex_pose)) = AnyPoseStamped m
              \<and> ?target = iso_mul (frame_transform ([ex_scene ex_arm] ! 0) (frame_id (header m))) (fromMsg_pose (pose m)))
         \<or> (\<exists>m. goal (ex_stage (AnyPoseStamped ex_pose)) = AnyPointStamped m
              \<and> ?target = (ik_pose_world ([ex_scene ex_arm] ! 0) ?msg)
                  \<lparr>translation := iso_apply (frame_transform ([ex_scene ex_arm] ! 0) (frame_id (point_header m)))
                                    (fromMsg_point (point m))\<rparr>)"
    by (simp add: ex_stage_def ex_pose_def ex_scene_def iso_mul_def fromMsg_pose_def fromMsg_point_def
        toRotationMatrix_def Identity_def mat_mul_def)
  have q: "getRigidlyConnectedParentLinkModel ex_lib (current_state ([ex_scene ex_arm] ! 0)) (frame_id (header ?msg))
           = Some ''link''"
    by (simp add: ex_lib_def)
  from cartesian_target_rebased [OF l g r t q, of ex_solution FORWARD]
  show ?thesis
    by (simp add: ex_stage_def ex_scene_def iso_mul_def iso_inverse_def ik_pose_world_def fromMsg_pose_def
        fromMsg_point_def toRotationMatrix_def Identity_def mat_mul_def)
qed

text \<open>
  C3: Every pose or point goal that resolves to a world-frame target should reach the
  planner with the re-based target and the parent link of the ik frame. The source looks
  the parent link up and uses the pointer unchecked, unlike the group pointer, which it
  tests before use. So when the ik frame resolves, the goal is a pose or point goal, and
  the lookup returns no link (the frame is known to the scene but is neither a robot link
  nor attached to one), the invocation dereferences a null pointer: its behaviour is
  undefined, the planner is never called and no trajectory is stored.
\<close>

theorem cartesian_parent_null:
  assumes "p < length h"
    and "getJointModelGroup (robot_model (h ! p)) (group stg) = Some jmg"
    and "resolve_ik_frame lib stg jmg (h ! p) = Inr ik_pose_msg"
    and "(\<exists>m. goal stg = AnyPoseStamped m) \<or> (\<exists>m. goal stg = AnyPointStamped m)"
    and "getRigidlyConnectedParentLinkModel lib (current_state (h ! p)) (frame_id (header ik_pose_msg))
           = None"
  shows "outcome (compute lib stg h p sol dir) = Undefined_behaviour
    \<and> planner_calls (compute lib stg h p sol dir) = []
    \<and> trajectory (solution (compute lib stg h p sol dir)) = trajectory sol"
proof -
  from assms(4) have ne: "goal stg \<noteq> Empty" by auto
  from assms(4) have f: "snd (getJointStateGoal (goal stg) jmg (current_state (h ! p))) = Inr False"
    by (auto simp: getJointStateGoal_def)
  from assms(4) obtain target where t: "(case getPoseGoal (goal stg) (h ! p) of
                   Some t \<Rightarrow> Some t
                 | None \<Rightarrow> getPointGoal (goal stg) (ik_pose_world (h ! p) ik_pose_msg) (h ! p)) = Some target"
    by (auto simp: getPoseGoal_def getPointGoal_def Let_def)
  show ?thesis
    unfolding compute_cartesian [OF assms(1,2) ne f]
    by (simp add: assms(3,5) t add_frame_def)
qed

theorem cartesian_parent_null_witness:
  "knows_frame_transform (ex_scene ex_arm) ''world''
   \<and> getPoseGoal (AnyPoseStamped ex_pose) (ex_scene ex_arm)
       = Some \<lparr>rotation = ((1, 0, 0), (0, 1, 0), (0, 0, 1)), translation = (1, 2, 3)\<rparr>
   \<and> outcome (compute ex_lib ((ex_stage (AnyPoseStamped ex_pose))\<lparr>ik_frame := Some ex_ik_world\<rparr>)
        [ex_scene ex_arm] 0 ex_solution FORWARD) = Undefined_behaviour
   \<and> planner_calls (compute ex_lib ((ex_stage (AnyPoseStamped ex_pose))\<lparr>ik_frame := Some ex_ik_world\<rparr>)
        [ex_scene ex_arm] 0 ex_solution FORWARD) = []"
proof -
  let ?stg = "(ex_stage (AnyPoseStamped ex_pose))\<lparr>ik_frame := Some ex_ik_world\<rparr>"
  have l: "(0::nat) < length [ex_scene ex_arm]" by simp
  have g: "getJointModelGroup (robot_model ([ex_scene ex_arm] ! 0)) (group ?stg) = Some ex_arm"
    by (simp add: getJointModelGroup_def ex_scene_def ex_stage_def ex_arm_def)
  have r: "resolve_ik_frame ex_lib ?stg ex_arm ([ex_scene ex_arm] ! 0) = Inr ex_ik_world"
    by (simp add: resolve_ik_frame_def ex_stage_def ex_ik_world_def ex_scene_def)
  have t: "(\<exists>m. goal ?stg = AnyPoseStamped m) \<or> (\<exists>m. goal ?stg = AnyPointStamped m)"
    by (simp add: ex_stage_def)
  have q: "getRigidlyConnectedParentLinkModel ex_lib (current_state ([ex_scene ex_arm] ! 0))
             (frame_id (header ex_ik_world)) = None"
    by (simp add: ex_lib_def ex_ik_world_def)
  have k: "knows_frame_transform (ex_scene ex_arm) ''world''" by (simp add: ex_scene_def)
  have e: "getPoseGoal (AnyPoseStamped ex_pose) (ex_scene ex_arm)
       = Some \<lparr>rotation = ((1, 0, 0), (0, 1, 0), (0, 0, 1)), translation = (1, 2, 3)\<rparr>"
    by (simp add: getPoseGoal_def ex_pose_def ex_scene_def iso_mul_def fromMsg_pose_def fromMsg_point_def
        toRotationMatrix_def Identity_def mat_mul_def)
  from cartesian_parent_null [OF l g r t q, of ex_solution FORWARD] k e
  show ?thesis by simp
qed

subsection \<open>The fallback trajectory\<close>

lemma store_result_fallback:
  assumes "storeFailures stg"
  shows "store_result stg hh p sc sol dir False None calls =
     \<lparr>outcome = Returned True,
      heap = hh[sc := (hh ! sc)\<lparr>current_state := current_state (hh ! sc)\<rparr>],
      scene = sc,
      solution = sol\<lparr>trajectory :=
                       Some \<lparr>waypoints = (if dir = BACKWARD
                                          then [current_state (hh ! sc), current_state (hh ! p)]
                                          else [current_state (hh ! p), current_state (hh ! sc)]),
                             duration_from_previous = [0, 1]\<rparr>,
                     failure := True\<rparr>,
      planner_calls = calls\<rparr>"
  using assms
  by (simp add: store_result_def Let_def addSuffixWayPoint_def empty_trajectory_def reverse_def
      setTrajectory_def markAsFailure_def)

text \<open>
  C1, as amended: When the planner is called, reports failure and returns no trajectory,
  and failures are stored, the invocation returns true and stores a trajectory of exactly
  two waypoints with the durations 0 and 1. In the forward direction waypoint 0 is the
  start configuration and waypoint 1 the working configuration, that is the start
  configuration after goal interpretation; in the backward direction the two waypoints
  are exchanged. The record is marked as a failure. The stage attaches no message: the
  comment is the one the record had. The scene's current configuration is the working
  configuration.
\<close>

theorem fallback_trajectory:
  assumes "p < length h"
    and "getJointModelGroup (robot_model (h ! p)) (group stg) = Some jmg"
    and "planner_calls (compute lib stg h p sol dir) = [c]"
    and "planner_plan stg c = (False, None)"
    and "storeFailures stg"
  shows "outcome (compute lib stg h p sol dir) = Returned True
    \<and> map_option waypoints (trajectory (solution (compute lib stg h p sol dir))) =
        Some (if dir = BACKWARD
              then [fst (getJointStateGoal (goal stg) jmg (current_state (h ! p))), current_state (h ! p)]
              else [current_state (h ! p), fst (getJointStateGoal (goal stg) jmg (current_state (h ! p)))])
    \<and> map_option duration_from_previous (trajectory (solution (compute lib stg h p sol dir))) = Some [0, 1]
    \<and> failure (solution (compute lib stg h p sol dir))
    \<and> comment (solution (compute lib stg h p sol dir)) = comment sol
    \<and> current_state (heap (compute lib stg h p sol dir) ! scene (compute lib stg h p sol dir))
        = fst (getJointStateGoal (goal stg) jmg (current_state (h ! p)))"
proof -
  let ?s = "current_state (h ! p)"
  obtain s' r where g: "getJointStateGoal (goal stg) jmg ?s = (s', r)"
    by (cases "getJointStateGoal (goal stg) jmg ?s")
  show ?thesis
  proof (cases r)
    case (Inl e)
    with compute_thrown [OF assms(1,2), of s' e lib sol dir] g assms(3) show ?thesis by simp
  next
    case (Inr b)
    show ?thesis
    proof (cases b)
      case True
      let ?call = "PlanJoint (h ! p) ((h ! p)\<lparr>current_state := s'\<rparr>) jmg (timeout stg) (path_constraints stg)"
      have g': "getJointStateGoal (goal stg) jmg ?s = (s', Inr True)" using g Inr True by simp
      note cj = compute_joint [OF assms(1,2) g', of lib sol dir]
      have "planner_calls (compute lib stg h p sol dir) = [?call]"
        unfolding cj by (simp add: store_result_calls split: prod.splits)
      with assms(3) have c: "c = ?call" by simp
      have pl: "planner_plan stg ?call = (False, None)" using assms(4) c by simp
      show ?thesis
        unfolding cj pl using assms(1) g'
        by (simp add: store_result_fallback [OF assms(5)] nth_append)
    next
      case False
      have f: "snd (getJointStateGoal (goal stg) jmg ?s) = Inr False" using g Inr False by simp
      have "getJointStateGoal (goal stg) jmg ?s = (s', Inr False)" using g Inr False by simp
      then have s': "s' = ?s" by (rule getJointStateGoal_False_state)
      have ne: "goal stg \<noteq> Empty"
        using assms(1,2,3) by (auto simp: compute_def Let_def)
      note cc = compute_cartesian [OF assms(1,2) ne f, of lib sol dir]
      show ?thesis
      proof (cases "resolve_ik_frame lib stg jmg (h ! p)")
        case (Inl msg)
        with cc assms(3) show ?thesis by simp
      next
        case ik: (Inr ik_pose_msg)
        show ?thesis
        proof (cases "case getPoseGoal (goal stg) (h ! p) of
                   Some t \<Rightarrow> Some t
                 | None \<Rightarrow> getPointGoal (goal stg) (ik_pose_world (h ! p) ik_pose_msg) (h ! p)")
          case None
          with cc ik assms(3) show ?thesis by simp
        next
          case tg: (Some target)
          show ?thesis
          proof (cases "getRigidlyConnectedParentLinkModel lib (current_state (h ! p)) (frame_id (header ik_pose_msg))")
            case None
            with cc ik tg assms(3) show ?thesis by simp
          next
            case (Some parent)
            let ?call = "PlanCartesian (h ! p) parent
                               (iso_mul (iso_mul target (iso_inverse (ik_pose_world (h ! p) ik_pose_msg)))
                                  (frame_transform (h ! p) parent))
                               jmg (timeout stg) (path_constraints stg)"
            have "planner_calls (compute lib stg h p sol dir) = [?call]"
              unfolding cc by (simp add: ik tg Some store_result_calls split: prod.splits)
            with assms(3) have c: "c = ?call" by simp
            have pl: "planner_plan stg ?call = (False, None)" using assms(4) c by simp
            show ?thesis
              unfolding cc using assms(1) g s' Inr False
              by (simp add: ik tg Some pl store_result_fallback [OF assms(5)] nth_append add_frame_def)
          qed
        qed
      qed
    qed
  qed
qed


text \<open>The definitions that evaluate an invocation on the small robot.\<close>

lemmas ex_defs = ex_stage_def ex_scene_def ex_arm_def ex_lib_def ex_solution_def

lemmas run_defs = compute_def store_result_def getJointModelGroup_def getJointStateGoal_def
  setVariablePosition_def addSuffixWayPoint_def empty_trajectory_def reverse_def setTrajectory_def
  markAsFailure_def resolve_ik_frame_def get_tip_def Let_def

theorem fallback_trajectory_witness:
  "map_option waypoints (trajectory (solution
       (compute ex_lib (ex_stage (AnyJointMap [(''j1'', 1 / 2)])) [ex_scene ex_arm] 0 ex_solution FORWARD)))
     = Some [\<lambda>_. 0, (\<lambda>_. 0)(''j1'' := 1 / 2)]
   \<and> map_option duration_from_previous (trajectory (solution
       (compute ex_lib (ex_stage (AnyJointMap [(''j1'', 1 / 2)])) [ex_scene ex_arm] 0 ex_solution FORWARD)))
     = Some [0, 1]
   \<and> failure (solution
       (compute ex_lib (ex_stage (AnyJointMap [(''j1'', 1 / 2)])) [ex_scene ex_arm] 0 ex_solution FORWARD))"
proof -
  let ?stg = "ex_stage (AnyJointMap [(''j1'', 1 / 2)])"
  let ?c = "PlanJoint (ex_scene ex_arm) ((ex_scene ex_arm)\<lparr>current_state := (\<lambda>_. 0)(''j1'' := 1 / 2)\<rparr>)
              ex_arm 1 (Constraints [])"
  have l: "(0::nat) < length [ex_scene ex_arm]" by simp
  have g: "getJointModelGroup (robot_model ([ex_scene ex_arm] ! 0)) (group ?stg) = Some ex_arm"
    by (simp add: ex_group_found ex_arm_def)
  have c: "planner_calls (compute ex_lib ?stg [ex_scene ex_arm] 0 ex_solution FORWARD) = [?c]"
    by (simp add: run_defs ex_defs)
  have f: "planner_plan ?stg ?c = (False, None)" by (simp add: ex_stage_def)
  have s: "storeFailures ?stg" by (simp add: ex_stage_def)
  have z: "current_state (ex_scene ex_arm) = (\<lambda>_. 0)" by (simp add: ex_scene_def)
  have w: "fst (getJointStateGoal (goal ?stg) ex_arm (\<lambda>_. 0)) = (\<lambda>_. 0)(''j1'' := 1 / 2)"
    by (simp add: run_defs ex_defs)
  from fallback_trajectory [OF l g c f s] show ?thesis
    by (simp add: w z)
qed

text \<open>
  The first statement of C1 puts the start configuration at waypoint 0 and a non-empty
  message on the record, for every invocation. A backward invocation with a joint-map goal
  and a planner that finds nothing stores the working configuration at waypoint 0 and the
  start configuration, which differs from it in \<open>j1\<close>, at waypoint 1; the record is marked
  as a failure and its comment is empty.
\<close>

theorem fallback_counterexample:
  "storeFailures (ex_stage (AnyJointMap [(''j1'', 1 / 2)]))
   \<and> length (planner_calls
       (compute ex_lib (ex_stage (AnyJointMap [(''j1'', 1 / 2)])) [ex_scene ex_arm] 0 ex_solution BACKWARD)) = 1
   \<and> map_option waypoints (trajectory (solution
       (compute ex_lib (ex_stage (AnyJointMap [(''j1'', 1 / 2)])) [ex_scene ex_arm] 0 ex_solution BACKWARD)))
     = Some [(\<lambda>_. 0)(''j1'' := 1 / 2), current_state (ex_scene ex_arm)]
   \<and> current_state (ex_scene ex_arm) ''j1'' = 0
   \<and> failure (solution
       (compute ex_lib (ex_stage (AnyJointMap [(''j1'', 1 / 2)])) [ex_scene ex_arm] 0 ex_solution BACKWARD))
   \<and> comment (solution
       (compute ex_lib (ex_stage (AnyJointMap [(''j1'', 1 / 2)])) [ex_scene ex_arm] 0 ex_solution BACKWARD)) = []"
  by (simp add: run_defs ex_defs)

subsection \<open>Direction\<close>

lemma reverse_waypoints: "waypoints (reverse t) = rev (waypoints t)"
  by (simp add: reverse_def)

lemma reverse_durations:
  "tl (duration_from_previous (reverse t)) = rev (tl (duration_from_previous t))
   \<and> take 1 (duration_from_previous (reverse t)) = take 1 (duration_from_previous t)"
  by (simp add: reverse_def butlast_append split: list.splits)

lemma store_result_BACKWARD:
  "store_result stg H p sc S BACKWARD success planned calls =
     (if outcome (store_result stg H p sc S FORWARD success planned calls) = Returned True
      then (store_result stg H p sc S FORWARD success planned calls)
             \<lparr>solution := (solution (store_result stg H p sc S FORWARD success planned calls))
                \<lparr>trajectory := map_option reverse
                    (trajectory (solution (store_result stg H p sc S FORWARD success planned calls)))\<rparr>\<rparr>
      else store_result stg H p sc S FORWARD success planned calls)"
  by (simp add: store_result_def Let_def setTrajectory_def markAsFailure_def split: option.splits)

lemma store_result_True:
  assumes "outcome (store_result stg H p sc S dir success planned calls) = Returned True"
    and "sc < length H"
  shows "trajectory (solution (store_result stg H p sc S FORWARD success planned calls)) \<noteq> None
    \<and> waypoints (the (trajectory (solution (store_result stg H p sc S FORWARD success planned calls)))) \<noteq> []
    \<and> current_state (heap (store_result stg H p sc S FORWARD success planned calls) ! sc)
        = last (waypoints (the (trajectory (solution (store_result stg H p sc S FORWARD success planned calls)))))"
  using assms
  by (auto simp: store_result_def Let_def setTrajectory_def markAsFailure_def split: option.splits if_splits)

lemma compute_BACKWARD:
  "compute lib stg h p sol BACKWARD =
     (if outcome (compute lib stg h p sol FORWARD) = Returned True
      then (compute lib stg h p sol FORWARD)
             \<lparr>solution := (solution (compute lib stg h p sol FORWARD))
                \<lparr>trajectory := map_option reverse
                    (trajectory (solution (compute lib stg h p sol FORWARD)))\<rparr>\<rparr>
      else compute lib stg h p sol FORWARD)"
  by (simp add: compute_def Let_def store_result_BACKWARD
      split: option.splits sum.splits prod.splits bool.splits)

lemma compute_True:
  assumes "outcome (compute lib stg h p sol FORWARD) = Returned True"
  shows "trajectory (solution (compute lib stg h p sol FORWARD)) \<noteq> None
    \<and> waypoints (the (trajectory (solution (compute lib stg h p sol FORWARD)))) \<noteq> []
    \<and> current_state (heap (compute lib stg h p sol FORWARD) ! length h)
        = last (waypoints (the (trajectory (solution (compute lib stg h p sol FORWARD)))))"
proof -
  have "(\<exists>H S success planned calls. length H = Suc (length h) \<and>
      compute lib stg h p sol FORWARD = store_result stg H p (length h) S FORWARD success planned calls)
   \<or> outcome (compute lib stg h p sol FORWARD) \<noteq> Returned True"
    apply (simp add: compute_def Let_def split: option.splits sum.splits prod.splits bool.splits)
    apply (intro allI impI conjI)
    apply (rule disjI1, rule exI, rule conjI [rotated], (rule exI)+, rule refl, simp)+
    done
  with assms obtain H S success planned calls where
    H: "length H = Suc (length h)"
    and c: "compute lib stg h p sol FORWARD = store_result stg H p (length h) S FORWARD success planned calls"
    by blast
  have "length h < length H" using H by simp
  from store_result_True [OF assms [unfolded c] this] show ?thesis
    unfolding c .
qed


lemma compute_scene: "scene (compute lib stg h p sol dir) = length h"
  by (simp add: compute_def Let_def store_result_scene
      split: option.splits sum.splits prod.splits bool.splits)

text \<open>
  C7: Whenever the forward invocation produces a trajectory, planned or fallback, the
  backward invocation on the same inputs, hence with the same planner outcome, produces
  one too, and its waypoints are those of the forward trajectory in reverse order. The
  durations between consecutive waypoints are those of the forward trajectory in reverse
  order, and the duration before the first waypoint is kept. Both invocations leave the
  same store: the scene's current configuration is the last waypoint of the trajectory
  before reversal. The planner calls and the failure mark do not depend on the direction.
\<close>

theorem backward_reverses:
  assumes "outcome (compute lib stg h p sol FORWARD) = Returned True"
  shows "\<exists>t. trajectory (solution (compute lib stg h p sol FORWARD)) = Some t
     \<and> waypoints t \<noteq> []
     \<and> outcome (compute lib stg h p sol BACKWARD) = Returned True
     \<and> (\<exists>t'. trajectory (solution (compute lib stg h p sol BACKWARD)) = Some t'
          \<and> waypoints t' = rev (waypoints t)
          \<and> tl (duration_from_previous t') = rev (tl (duration_from_previous t))
          \<and> take 1 (duration_from_previous t') = take 1 (duration_from_previous t))
     \<and> heap (compute lib stg h p sol BACKWARD) = heap (compute lib stg h p sol FORWARD)
     \<and> current_state (heap (compute lib stg h p sol BACKWARD) ! scene (compute lib stg h p sol BACKWARD))
         = last (waypoints t)
     \<and> planner_calls (compute lib stg h p sol BACKWARD) = planner_calls (compute lib stg h p sol FORWARD)
     \<and> failure (solution (compute lib stg h p sol BACKWARD))
         = failure (solution (compute lib stg h p sol FORWARD))"
proof -
  from compute_True [OF assms] obtain t where
    t: "trajectory (solution (compute lib stg h p sol FORWARD)) = Some t"
    and ne: "waypoints t \<noteq> []"
    and st: "current_state (heap (compute lib stg h p sol FORWARD) ! length h) = last (waypoints t)"
    by auto
  have b: "compute lib stg h p sol BACKWARD =
      (compute lib stg h p sol FORWARD)
         \<lparr>solution := (solution (compute lib stg h p sol FORWARD))\<lparr>trajectory := Some (reverse t)\<rparr>\<rparr>"
    using assms t by (simp add: compute_BACKWARD)
  have sc: "scene (compute lib stg h p sol BACKWARD) = length h" by (rule compute_scene)
  show ?thesis
    unfolding sc unfolding b
    using t ne st assms reverse_durations [of t] by (simp add: reverse_waypoints)
qed

theorem backward_reverses_witness:
  "map_option waypoints (trajectory (solution
      (compute ex_lib (ex_stage_ok (AnyJointMap [(''j1'', 1 / 2)])) [ex_scene ex_arm] 0 ex_solution BACKWARD)))
     = Some [(\<lambda>_. 0)(''j1'' := 1 / 2), (\<lambda>_. 0)(''j1'' := 1 / 4), \<lambda>_. 0]
   \<and> map_option (\<lambda>t. tl (duration_from_previous t)) (trajectory (solution
      (compute ex_lib (ex_stage_ok (AnyJointMap [(''j1'', 1 / 2)])) [ex_scene ex_arm] 0 ex_solution BACKWARD)))
     = Some [2, 1]"
proof -
  let ?F = "compute ex_lib (ex_stage_ok (AnyJointMap [(''j1'', 1 / 2)])) [ex_scene ex_arm] 0 ex_solution FORWARD"
  have o: "outcome ?F = Returned True" by (simp add: run_defs ex_defs ex_stage_ok_def ex_planned_def)
  have f: "trajectory (solution ?F) = Some ex_planned"
    by (simp add: run_defs ex_defs ex_stage_ok_def ex_planned_def)
  from backward_reverses [OF o] f obtain t' where
    "trajectory (solution
      (compute ex_lib (ex_stage_ok (AnyJointMap [(''j1'', 1 / 2)])) [ex_scene ex_arm] 0 ex_solution BACKWARD)) = Some t'"
    "waypoints t' = rev (waypoints ex_planned)"
    "tl (duration_from_previous t') = rev (tl (duration_from_previous ex_planned))"
    by auto
  then show ?thesis by (simp add: ex_planned_def)
qed

subsection \<open>The ik frame\<close>

text \<open>
  C5, as amended: When the group exists, the goal is set and is none of the joint-space
  kinds, so that the invocation reaches the choice of the ik frame, and the ik frame
  property is unset while the group does not expose exactly one tip frame (none, or two
  or more), the invocation returns false with the record marked as a failure and the
  message \<open>missing ik_frame\<close>, stores no trajectory and makes no planner call.
\<close>

theorem missing_ik_frame:
  assumes "p < length h"
    and "getJointModelGroup (robot_model (h ! p)) (group stg) = Some jmg"
    and "goal stg \<noteq> Empty"
    and "any_cast_string (goal stg) = None"
    and "any_cast_RobotState (goal stg) = None"
    and "any_cast_joint_map (goal stg) = None"
    and "ik_frame stg = None"
    and "length (end_effector_tips jmg) \<noteq> 1"
  shows "outcome (compute lib stg h p sol dir) = Returned False
    \<and> failure (solution (compute lib stg h p sol dir))
    \<and> comment (solution (compute lib stg h p sol dir)) = ''missing ik_frame''
    \<and> trajectory (solution (compute lib stg h p sol dir)) = trajectory sol
    \<and> planner_calls (compute lib stg h p sol dir) = []"
proof -
  have f: "snd (getJointStateGoal (goal stg) jmg (current_state (h ! p))) = Inr False"
    using assms(4-6) by (simp add: getJointStateGoal_False)
  have r: "resolve_ik_frame lib stg jmg (h ! p) = Inl ''missing ik_frame''"
    using assms(7,8) by (simp add: resolve_ik_frame_def get_tip_def)
  show ?thesis
    unfolding compute_cartesian [OF assms(1,2,3) f] by (simp add: r markAsFailure_def)
qed

theorem missing_ik_frame_witness:
  "outcome (compute ex_lib (ex_stage (AnyPoseStamped ex_pose)) [ex_scene ex_arm_two_tips] 0 ex_solution FORWARD)
     = Returned False
   \<and> comment (solution
       (compute ex_lib (ex_stage (AnyPoseStamped ex_pose)) [ex_scene ex_arm_two_tips] 0 ex_solution FORWARD))
     = ''missing ik_frame''
   \<and> planner_calls
       (compute ex_lib (ex_stage (AnyPoseStamped ex_pose)) [ex_scene ex_arm_two_tips] 0 ex_solution FORWARD) = []"
proof -
  let ?stg = "ex_stage (AnyPoseStamped ex_pose)"
  have l: "(0::nat) < length [ex_scene ex_arm_two_tips]" by simp
  have g: "getJointModelGroup (robot_model ([ex_scene ex_arm_two_tips] ! 0)) (group ?stg) = Some ex_arm_two_tips"
    by (simp add: ex_group_found ex_arm_two_tips_def ex_arm_def)
  have a: "goal ?stg \<noteq> Empty" "any_cast_string (goal ?stg) = None" "any_cast_RobotState (goal ?stg) = None"
    "any_cast_joint_map (goal ?stg) = None" "ik_frame ?stg = None"
    by (simp_all add: ex_stage_def)
  have n: "length (end_effector_tips ex_arm_two_tips) \<noteq> 1"
    by (simp add: ex_arm_two_tips_def)
  from missing_ik_frame [OF l g a n, of ex_lib ex_solution FORWARD] show ?thesis by simp
qed

text \<open>
  The first statement of C5 covers every invocation with the ik frame unset and a tip
  count other than one, and names the message \<open>ambiguous ik frame\<close>. With a joint-map
  goal and a group of two tips the ik frame is never looked at: the planner is called
  and the invocation succeeds. With a pose goal and the same group the message is
  \<open>missing ik_frame\<close>.
\<close>

theorem missing_ik_frame_counterexample:
  "ik_frame (ex_stage_ok (AnyJointMap [(''j1'', 1 / 2)])) = None
   \<and> length (end_effector_tips ex_arm_two_tips) = 2
   \<and> outcome (compute ex_lib (ex_stage_ok (AnyJointMap [(''j1'', 1 / 2)])) [ex_scene ex_arm_two_tips] 0
        ex_solution FORWARD) = Returned True
   \<and> \<not> failure (solution (compute ex_lib (ex_stage_ok (AnyJointMap [(''j1'', 1 / 2)]))
        [ex_scene ex_arm_two_tips] 0 ex_solution FORWARD))
   \<and> length (planner_calls (compute ex_lib (ex_stage_ok (AnyJointMap [(''j1'', 1 / 2)]))
        [ex_scene ex_arm_two_tips] 0 ex_solution FORWARD)) = 1
   \<and> comment (solution (compute ex_lib (ex_stage (AnyPoseStamped ex_pose)) [ex_scene ex_arm_two_tips] 0
        ex_solution FORWARD)) = ''missing ik_frame''"
  by (simp add: run_defs ex_defs ex_stage_ok_def ex_planned_def ex_arm_two_tips_def ex_pose_def)

subsection \<open>The group\<close>

text \<open>
  C8, as amended: A group name that names no joint group of the robot model is found by
  the invocation itself and is a per-invocation failure: the invocation returns false
  with the record marked as a failure and the message \<open>invalid joint model group: \<close>
  followed by the name, stores no trajectory, calls no planner and throws nothing.
\<close>

theorem invalid_group:
  assumes "p < length h"
    and "getJointModelGroup (robot_model (h ! p)) (group stg) = None"
  shows "outcome (compute lib stg h p sol dir) = Returned False
    \<and> failure (solution (compute lib stg h p sol dir))
    \<and> comment (solution (compute lib stg h p sol dir)) = ''invalid joint model group: '' @ group stg
    \<and> trajectory (solution (compute lib stg h p sol dir)) = trajectory sol
    \<and> planner_calls (compute lib stg h p sol dir) = []"
  using assms by (simp add: compute_def Let_def markAsFailure_def)

theorem invalid_group_witness:
  "outcome (compute ex_lib (ex_stage (AnyJointMap [(''j1'', 1 / 2)])) [ex_scene ex_gripper] 0 ex_solution FORWARD)
     = Returned False
   \<and> comment (solution
       (compute ex_lib (ex_stage (AnyJointMap [(''j1'', 1 / 2)])) [ex_scene ex_gripper] 0 ex_solution FORWARD))
     = ''invalid joint model group: arm''"
proof -
  let ?stg = "ex_stage (AnyJointMap [(''j1'', 1 / 2)])"
  have l: "(0::nat) < length [ex_scene ex_gripper]" by simp
  have g: "getJointModelGroup (robot_model ([ex_scene ex_gripper] ! 0)) (group ?stg) = None"
    by (simp add: ex_group_found ex_gripper_def ex_arm_def)
  from invalid_group [OF l g, of ex_lib ex_solution FORWARD] show ?thesis
    by (simp add: ex_stage_def)
qed

text \<open>
  The first statement of C8 makes an unknown group a fatal error of the setup and the
  checks on the goal value per-invocation failures. For a stage whose group the robot
  model does not have, initialisation with a base class and a planner that raise nothing
  raises nothing, and the invocation runs and returns false with its message; it is a
  check on the goal value, the unknown pose name, that throws.
\<close>

theorem invalid_group_counterexample:
  "getJointModelGroup (robot_model (ex_scene ex_gripper)) (group (ex_stage (AnyJointMap [(''j1'', 1 / 2)]))) = None
   \<and> init (\<lambda>_. None) (\<lambda>_. None) (robot_model (ex_scene ex_gripper)) = None
   \<and> outcome (compute ex_lib (ex_stage (AnyJointMap [(''j1'', 1 / 2)])) [ex_scene ex_gripper] 0 ex_solution FORWARD)
       = Returned False
   \<and> comment (solution
       (compute ex_lib (ex_stage (AnyJointMap [(''j1'', 1 / 2)])) [ex_scene ex_gripper] 0 ex_solution FORWARD))
       = ''invalid joint model group: arm''
   \<and> outcome (compute ex_lib (ex_stage (AnyString ''nowhere'')) [ex_scene ex_arm] 0 ex_solution FORWARD)
       = Thrown (InitStageException ''Unknown joint pose: nowhere'')"
  by (simp add: run_defs ex_defs ex_gripper_def init_def setToDefaultValues_def)

end
